theory Spec2Isabelle
  imports Main
begin

section \<open>Python values and exceptions\<close>

text \<open>
  The exceptions the handlers can raise or let through. \<open>Raised\<close> is an exception
  coming out of an external collaborator (the Dataverse client, the HTTP library), named
  by its class.
\<close>

datatype error =
    TypeError
  | ValueError
  | AttributeError
  | MultipleObjectsReturned
  | Raised string

text \<open>
  \<open>field_info\<close> of a pydantic field: its \<open>description\<close> and the two entries of
  \<open>json_schema_extra\<close> the handlers read. \<open>multiple\<close> is read with
  \<open>.get("multiple", False)\<close>, so the key may be absent (\<open>None\<close>).
\<close>

record finfo =
  description :: string
  multiple :: "bool option"
  typeClass :: string

text \<open>
  A metadata value as easyDataverse hands it over. An \<open>item\<close> is \<open>None\<close>, a
  \<open>str\<close>, another scalar (int, float, bool, date; carried as its \<open>str()\<close> text) or a
  model object (a \<open>DataverseBase\<close> instance), given by its fields in declaration order:
  iterating the object yields \<open>(field_name, value)\<close>, and \<open>model_fields[field_name]\<close>
  is the field's \<open>finfo\<close>. A value is one item or a Python list of items.
\<close>

datatype item =
    INone
  | IStr string
  | IAtom string
  | IObj "(string \<times> finfo \<times> pyval) list"
and pyval =
    Single item
  | Many "item list"

type_synonym node = "(string \<times> finfo \<times> pyval) list"

section \<open>The emptiness filter (fetch.py, \<open>_is_empty\<close>)\<close>

text \<open>
  \<open>is_empty_loop\<close> is the \<open>for\<close> loop with its variable \<open>empty\<close> (here \<open>emp\<close>);
  \<open>field_verdict\<close> is the value the loop body assigns to \<open>empty\<close> for one field;
  \<open>is_empty_entries\<close> is the list comprehension \<open>[_is_empty(entry) for entry in value]\<close>.
  An object without \<open>model_fields\<close> (anything but a model object) is empty.
  Iterating \<open>None\<close> or a scalar raises \<open>TypeError\<close>; iterating a \<open>str\<close> yields its
  characters and iterating a model object yields tuples, neither of which is \<open>None\<close> or
  has \<open>model_fields\<close>.
\<close>

fun is_empty :: "item \<Rightarrow> error + bool"
  and is_empty_loop :: "bool \<Rightarrow> node \<Rightarrow> error + bool"
  and field_verdict :: "finfo \<Rightarrow> pyval \<Rightarrow> error + bool"
  and is_empty_entries :: "item list \<Rightarrow> error + bool list"
where
  "is_empty (IObj flds) = is_empty_loop True flds"
| "is_empty INone = Inr True"
| "is_empty (IStr s) = Inr True"
| "is_empty (IAtom a) = Inr True"
| "is_empty_loop emp [] = Inr emp"
| "is_empty_loop emp ((field_name, field_info, val) # rest) =
    (case field_verdict field_info val of
       Inl e \<Rightarrow> Inl e
     | Inr b \<Rightarrow> if b = False then Inr b else is_empty_loop b rest)"
| "field_verdict field_info val =
    (let is_multiple = (case multiple field_info of None \<Rightarrow> False | Some b \<Rightarrow> b);
         is_compound = (typeClass field_info = ''compound'')
     in if is_compound \<and> is_multiple then
          (case val of
             Many entries \<Rightarrow>
               (case is_empty_entries entries of
                  Inl e \<Rightarrow> Inl e
                | Inr bs \<Rightarrow> Inr (list_all id bs))
           | Single INone \<Rightarrow> Inl TypeError
           | Single (IAtom a) \<Rightarrow> Inl TypeError
           | Single (IStr s) \<Rightarrow> Inr True
           | Single (IObj fs) \<Rightarrow> Inr True)
        else if is_compound then
          (case val of
             Single v \<Rightarrow> is_empty v
           | Many entries \<Rightarrow> Inr True)
        else if is_multiple then
          (case val of
             Many entries \<Rightarrow> Inr (list_all (\<lambda>v. v = INone) entries)
           | Single INone \<Rightarrow> Inl TypeError
           | Single (IAtom a) \<Rightarrow> Inl TypeError
           | Single (IStr s) \<Rightarrow> Inr (s = [])
           | Single (IObj fs) \<Rightarrow> Inr (fs = []))
        else Inr (val = Single INone))"
| "is_empty_entries [] = Inr []"
| "is_empty_entries (entry # entries) =
    (case is_empty entry of
       Inl e \<Rightarrow> Inl e
     | Inr b \<Rightarrow>
        (case is_empty_entries entries of
           Inl e \<Rightarrow> Inl e
         | Inr bs \<Rightarrow> Inr (b # bs)))"

section \<open>The review store (reviews/models.py)\<close>

text \<open>
  One record per Django model the handlers touch, one list per table, rows in insertion
  order. A primary key is a UUID, kept as its text. \<open>uuid.uuid4\<close> is random: the
  store counts the keys drawn so far, and the environment says which key the n-th draw
  gives.
\<close>

type_synonym uuid = string

record review =
  r_id :: uuid
  r_reviewer :: "uuid option"
  r_doi :: string
  r_site_url :: "string option"
  r_revision :: nat
  r_accepted :: bool
  r_date :: nat

record metadatablock =
  mb_id :: uuid
  mb_review :: uuid
  mb_name :: string
  mb_description :: string

record field =
  f_id :: uuid
  f_metadatablock :: "uuid option"
  f_compound :: "uuid option"
  f_name :: string
  f_description :: string
  f_accepted :: "bool option"
  f_value :: string
  f_history :: "(string \<times> string) list"
  f_field_type :: string

record compound =
  c_id :: uuid
  c_metadatablock :: uuid
  c_name :: string
  c_description :: string
  c_accepted :: bool
  c_field_type :: string

record file_row =
  fl_id :: uuid
  fl_review :: uuid
  fl_name :: string
  fl_description :: string
  fl_accepted :: bool
  fl_field_type :: string

record message =
  m_id :: uuid
  m_field :: "uuid option"
  m_compound :: "uuid option"
  m_message :: string
  m_user :: "string option"
  m_timestamp :: nat

record store =
  review_rows :: "review list"
  metadatablock_rows :: "metadatablock list"
  compound_rows :: "compound list"
  field_rows :: "field list"
  file_rows :: "file_row list"
  message_rows :: "message list"
  uuids_drawn :: nat

text \<open>
  What the handlers take from outside: the Dataverse client's constructor
  (\<open>Dataverse(site_url, api_token)\<close>) and its \<open>load_dataset\<close>, which returns the
  dataset's \<open>metadatablocks\<close> dictionary in its order; the clock; the key generator; and
  pydantic's \<open>str()\<close> of a model object.
\<close>

record env =
  Dataverse :: "string option \<Rightarrow> string option \<Rightarrow> error + unit"
  load_dataset :: "string option \<Rightarrow> string option \<Rightarrow> string \<Rightarrow> error + (string \<times> node) list"
  now :: nat
  uuid4 :: "nat \<Rightarrow> uuid"
  model_str :: "node \<Rightarrow> string"

definition draw_uuid :: "env \<Rightarrow> store \<Rightarrow> uuid \<times> store" where
  "draw_uuid e s = (uuid4 e (uuids_drawn s), s\<lparr>uuids_drawn := Suc (uuids_drawn s)\<rparr>)"

subsection \<open>\<open>_create_and_save\<close>, one definition per model it is called with\<close>

definition create_review :: "env \<Rightarrow> string \<Rightarrow> string option \<Rightarrow> nat \<Rightarrow> nat \<Rightarrow> store \<Rightarrow> review \<times> store" where
  "create_review e doi site_url revision date s =
    (let (k, s1) = draw_uuid e s;
         obj = \<lparr>r_id = k, r_reviewer = None, r_doi = doi, r_site_url = site_url,
                r_revision = revision, r_accepted = False, r_date = date\<rparr>
     in (obj, s1\<lparr>review_rows := review_rows s1 @ [obj]\<rparr>))"

definition create_metadatablock :: "env \<Rightarrow> review \<Rightarrow> string \<Rightarrow> store \<Rightarrow> metadatablock \<times> store" where
  "create_metadatablock e rvw name s =
    (let (k, s1) = draw_uuid e s;
         obj = \<lparr>mb_id = k, mb_review = r_id rvw, mb_name = name, mb_description = []\<rparr>
     in (obj, s1\<lparr>metadatablock_rows := metadatablock_rows s1 @ [obj]\<rparr>))"

definition create_compound :: "env \<Rightarrow> metadatablock \<Rightarrow> string \<Rightarrow> store \<Rightarrow> compound \<times> store" where
  "create_compound e mb name s =
    (let (k, s1) = draw_uuid e s;
         obj = \<lparr>c_id = k, c_metadatablock = mb_id mb, c_name = name, c_description = [],
                c_accepted = False, c_field_type = ''compound''\<rparr>
     in (obj, s1\<lparr>compound_rows := compound_rows s1 @ [obj]\<rparr>))"

text \<open>The keyword dictionary \<open>_process_primitive\<close> returns.\<close>

record attrs =
  a_name :: string
  a_description :: string
  a_value :: string
  a_history :: "(string \<times> string) list"

definition create_field :: "env \<Rightarrow> uuid option \<Rightarrow> uuid option \<Rightarrow> attrs \<Rightarrow> store \<Rightarrow> field \<times> store" where
  "create_field e mb cp a s =
    (let (k, s1) = draw_uuid e s;
         obj = \<lparr>f_id = k, f_metadatablock = mb, f_compound = cp, f_name = a_name a,
                f_description = a_description a, f_accepted = None, f_value = a_value a,
                f_history = a_history a, f_field_type = ''primitive''\<rparr>
     in (obj, s1\<lparr>field_rows := field_rows s1 @ [obj]\<rparr>))"

section \<open>The tree flattener (fetch.py)\<close>

text \<open>
  \<open>sep.join(xs)\<close> on strings, and on a Python list: \<open>join\<close> raises \<open>TypeError\<close> on an
  element that is not a \<open>str\<close>.
\<close>

fun str_join :: "string \<Rightarrow> string list \<Rightarrow> string" where
  "str_join sep [] = []"
| "str_join sep [x] = x"
| "str_join sep (x # y # ys) = x @ sep @ str_join sep (y # ys)"

fun strs_of :: "item list \<Rightarrow> error + string list" where
  "strs_of [] = Inr []"
| "strs_of (IStr x # xs) = (case strs_of xs of Inl e \<Rightarrow> Inl e | Inr ys \<Rightarrow> Inr (x # ys))"
| "strs_of (x # xs) = Inl TypeError"

definition py_join :: "string \<Rightarrow> item list \<Rightarrow> error + string" where
  "py_join sep xs = (case strs_of xs of Inl e \<Rightarrow> Inl e | Inr ys \<Rightarrow> Inr (str_join sep ys))"

text \<open>\<open>str(value)\<close> of a value that is not a list.\<close>

fun py_str :: "(node \<Rightarrow> string) \<Rightarrow> item \<Rightarrow> string" where
  "py_str ms INone = ''None''"
| "py_str ms (IStr x) = x"
| "py_str ms (IAtom x) = x"
| "py_str ms (IObj flds) = ms flds"

fun process_primitive :: "(node \<Rightarrow> string) \<Rightarrow> string \<Rightarrow> pyval \<Rightarrow> finfo \<Rightarrow> compound option \<Rightarrow> error + attrs" where
  "process_primitive ms name (Many xs) field_info parent =
    (case py_join '', '' xs of
       Inl e \<Rightarrow> Inl e
     | Inr v \<Rightarrow> Inr \<lparr>a_name = name, a_description = description field_info,
                     a_value = v, a_history = [(''Original'', v)]\<rparr>)"
| "process_primitive ms name (Single v) field_info parent =
    Inr \<lparr>a_name = name, a_description = description field_info,
         a_value = py_str ms v, a_history = [(''Original'', py_str ms v)]\<rparr>"

definition startswith_underscore :: "string \<Rightarrow> bool" where
  "startswith_underscore name = (case name of [] \<Rightarrow> False | c # cs \<Rightarrow> c = CHR ''_'')"

text \<open>
  \<open>_process_compound\<close>: the loop over the sub-fields of one compound entry. Iterating an
  entry that is \<open>None\<close> or a scalar raises \<open>TypeError\<close>; a non-empty \<open>str\<close> yields a
  character, which does not unpack into \<open>field_name, value\<close> (\<open>ValueError\<close>), and the
  empty \<open>str\<close> yields nothing.
\<close>

fun process_compound_loop :: "env \<Rightarrow> node \<Rightarrow> compound \<Rightarrow> store \<Rightarrow> (error + unit) \<times> store" where
  "process_compound_loop e [] foreign_key s = (Inr (), s)"
| "process_compound_loop e ((field_name, field_info, val) # rest) foreign_key s =
    (if startswith_underscore field_name \<or> val = Single INone
     then process_compound_loop e rest foreign_key s
     else (case process_primitive (model_str e) field_name val field_info (Some foreign_key) of
             Inl err \<Rightarrow> (Inl err, s)
           | Inr a \<Rightarrow>
               process_compound_loop e rest foreign_key
                 (snd (create_field e None (Some (c_id foreign_key)) a s))))"

fun process_compound :: "env \<Rightarrow> item \<Rightarrow> compound \<Rightarrow> store \<Rightarrow> (error + unit) \<times> store" where
  "process_compound e (IObj flds) foreign_key s = process_compound_loop e flds foreign_key s"
| "process_compound e INone foreign_key s = (Inl TypeError, s)"
| "process_compound e (IAtom a) foreign_key s = (Inl TypeError, s)"
| "process_compound e (IStr t) foreign_key s = (if t = [] then (Inr (), s) else (Inl ValueError, s))"

text \<open>
  \<open>_process_metadatablock\<close>: \<open>process_entries\<close> is its inner loop \<open>for entry in value\<close>,
  which saves one Compound row per entry and then flattens the entry.
\<close>

fun process_entries :: "env \<Rightarrow> string \<Rightarrow> item list \<Rightarrow> metadatablock \<Rightarrow> store \<Rightarrow> (error + unit) \<times> store" where
  "process_entries e field_name [] foreign_key s = (Inr (), s)"
| "process_entries e field_name (entry # entries) foreign_key s =
    (let (compound, s1) = create_compound e foreign_key field_name s
     in case process_compound e entry compound s1 of
          (Inl err, s2) \<Rightarrow> (Inl err, s2)
        | (Inr u, s2) \<Rightarrow> process_entries e field_name entries foreign_key s2)"

fun process_metadatablock :: "env \<Rightarrow> node \<Rightarrow> metadatablock \<Rightarrow> store \<Rightarrow> (error + unit) \<times> store" where
  "process_metadatablock e [] foreign_key s = (Inr (), s)"
| "process_metadatablock e ((field_name, field_info, val) # rest) foreign_key s =
    (if startswith_underscore field_name then process_metadatablock e rest foreign_key s
     else if val = Single INone then process_metadatablock e rest foreign_key s
     else if val = Many [] then process_metadatablock e rest foreign_key s
     else if \<not> typeClass field_info = ''compound'' then
       (case process_primitive (model_str e) field_name val field_info None of
          Inl err \<Rightarrow> (Inl err, s)
        | Inr a \<Rightarrow>
            process_metadatablock e rest foreign_key
              (snd (create_field e (Some (mb_id foreign_key)) None a s)))
     else
       (case process_entries e field_name
               (case val of Many entries \<Rightarrow> entries | Single v \<Rightarrow> [v]) foreign_key s of
          (Inl err, s1) \<Rightarrow> (Inl err, s1)
        | (Inr u, s1) \<Rightarrow> process_metadatablock e rest foreign_key s1))"

section \<open>Serializers (serializers.py) and responses\<close>

text \<open>
  What \<open>ReviewSerializer(review).data\<close> reads from the store: the row, and the rows
  related to it through the foreign keys (\<open>related_name\<close> \<open>metadatablocks\<close>,
  \<open>primitives\<close>, \<open>compounds\<close>, \<open>chat\<close>, \<open>files\<close>), nested.
\<close>

record field_repr =
  fr_field :: field
  fr_chat :: "message list"

record compound_repr =
  cr_compound :: compound
  cr_primitives :: "field_repr list"
  cr_chat :: "message list"

record metadatablock_repr =
  mr_metadatablock :: metadatablock
  mr_primitives :: "field_repr list"
  mr_compounds :: "compound_repr list"

record review_repr =
  rr_review :: review
  rr_metadatablocks :: "metadatablock_repr list"
  rr_files :: "file_row list"

definition serialize_field :: "store \<Rightarrow> field \<Rightarrow> field_repr" where
  "serialize_field s f =
    \<lparr>fr_field = f, fr_chat = filter (\<lambda>m. m_field m = Some (f_id f)) (message_rows s)\<rparr>"

definition serialize_compound :: "store \<Rightarrow> compound \<Rightarrow> compound_repr" where
  "serialize_compound s c =
    \<lparr>cr_compound = c,
     cr_primitives = map (serialize_field s) (filter (\<lambda>f. f_compound f = Some (c_id c)) (field_rows s)),
     cr_chat = filter (\<lambda>m. m_compound m = Some (c_id c)) (message_rows s)\<rparr>"

definition serialize_metadatablock :: "store \<Rightarrow> metadatablock \<Rightarrow> metadatablock_repr" where
  "serialize_metadatablock s b =
    \<lparr>mr_metadatablock = b,
     mr_primitives = map (serialize_field s) (filter (\<lambda>f. f_metadatablock f = Some (mb_id b)) (field_rows s)),
     mr_compounds = map (serialize_compound s) (filter (\<lambda>c. c_metadatablock c = mb_id b) (compound_rows s))\<rparr>"

definition serialize_review :: "store \<Rightarrow> review \<Rightarrow> review_repr" where
  "serialize_review s r =
    \<lparr>rr_review = r,
     rr_metadatablocks = map (serialize_metadatablock s) (filter (\<lambda>b. mb_review b = r_id r) (metadatablock_rows s)),
     rr_files = filter (\<lambda>f. fl_review f = r_id r) (file_rows s)\<rparr>"

text \<open>The open-fields report of one metadatablock (openfields.py).\<close>

record compound_entry =
  ce_name :: string
  ce_childFields :: "string list"

record open_fields =
  of_name :: string
  of_primitives :: "string list"
  of_compounds :: "compound_entry list"

datatype body =
    ReviewData review_repr
  | MessageBody string
  | OpenFieldsData "open_fields list"
  | FieldCount int nat

record response =
  status :: nat
  data :: body

section \<open>The fetch endpoint (fetch.py, \<open>fetch_dataset\<close>)\<close>

record request =
  q_site_url :: "string option"
  q_doi :: "string option"
  q_api_token :: "string option"

text \<open>The loop of \<open>fetch_dataset\<close> over \<open>dataset.metadatablocks.items()\<close>.\<close>

fun fetch_dataset_loop :: "env \<Rightarrow> (string \<times> node) list \<Rightarrow> review \<Rightarrow> store \<Rightarrow> (error + unit) \<times> store" where
  "fetch_dataset_loop e [] rvw s = (Inr (), s)"
| "fetch_dataset_loop e ((block_name, block) # rest) rvw s =
    (case is_empty (IObj block) of
       Inl err \<Rightarrow> (Inl err, s)
     | Inr True \<Rightarrow> fetch_dataset_loop e rest rvw s
     | Inr False \<Rightarrow>
        (let (mb, s1) = create_metadatablock e rvw block_name s
         in case process_metadatablock e block mb s1 of
              (Inl err, s2) \<Rightarrow> (Inl err, s2)
            | (Inr u, s2) \<Rightarrow> fetch_dataset_loop e rest rvw s2))"

text \<open>
  \<open>Review.objects.get(doi=doi)\<close> raises \<open>MultipleObjectsReturned\<close> when more than one
  row matches. A raised exception leaves the rows written so far in the store.
\<close>

definition fetch_dataset :: "env \<Rightarrow> request \<Rightarrow> store \<Rightarrow> (error + response) \<times> store" where
  "fetch_dataset e req s =
    (case Dataverse e (q_site_url req) (q_api_token req) of
       Inl err \<Rightarrow> (Inl err, s)
     | Inr dataverse \<Rightarrow>
        (case (q_site_url req, q_doi req) of
           (None, d) \<Rightarrow>
             (Inr \<lparr>status = 400,
                   data = MessageBody ''Missing either 'site_url' or 'doi' to fetch the dataset.''\<rparr>, s)
         | (Some site_url, None) \<Rightarrow>
             (Inr \<lparr>status = 400,
                   data = MessageBody ''Missing either 'site_url' or 'doi' to fetch the dataset.''\<rparr>, s)
         | (Some site_url, Some doi) \<Rightarrow>
             (case filter (\<lambda>r. r_doi r = doi) (review_rows s) of
                [r] \<Rightarrow> (Inr \<lparr>status = 200, data = ReviewData (serialize_review s r)\<rparr>, s)
              | r # r' # rs \<Rightarrow> (Inl MultipleObjectsReturned, s)
              | [] \<Rightarrow>
                 (case load_dataset e (Some site_url) (q_api_token req) doi of
                    Inl err \<Rightarrow> (Inl err, s)
                  | Inr blocks \<Rightarrow>
                     (let (rvw, s1) = create_review e doi (Some site_url) 1 (now e) s
                      in case fetch_dataset_loop e blocks rvw s1 of
                           (Inl err, s2) \<Rightarrow> (Inl err, s2)
                         | (Inr u, s2) \<Rightarrow>
                             (Inr \<lparr>status = 200, data = ReviewData (serialize_review s2 rvw)\<rparr>, s2))))))"

section \<open>The field count (review.py, \<open>get_field_count\<close>)\<close>

text \<open>
  \<open>values_list\<close> over a reverse relation is a LEFT OUTER JOIN: a parent row with no
  child row still gives one result row, whose value is NULL (\<open>None\<close>).
\<close>

definition outer :: "'a list \<Rightarrow> 'a option list" where
  "outer xs = (if xs = [] then [None] else map Some xs)"

definition primitives_of_block :: "store \<Rightarrow> metadatablock option \<Rightarrow> bool option list" where
  "primitives_of_block s b =
    (case b of
       None \<Rightarrow> [None]
     | Some mb \<Rightarrow>
        map (\<lambda>f. case f of None \<Rightarrow> None | Some fld \<Rightarrow> f_accepted fld)
          (outer (filter (\<lambda>f. f_metadatablock f = Some (mb_id mb)) (field_rows s))))"

definition primitives_of_compound :: "store \<Rightarrow> compound option \<Rightarrow> bool option list" where
  "primitives_of_compound s c =
    (case c of
       None \<Rightarrow> [None]
     | Some cp \<Rightarrow>
        map (\<lambda>f. case f of None \<Rightarrow> None | Some fld \<Rightarrow> f_accepted fld)
          (outer (filter (\<lambda>f. f_compound f = Some (c_id cp)) (field_rows s))))"

definition compounds_of_block :: "store \<Rightarrow> metadatablock option \<Rightarrow> bool option list" where
  "compounds_of_block s b =
    (case b of
       None \<Rightarrow> [None]
     | Some mb \<Rightarrow>
        concat (map (primitives_of_compound s)
          (outer (filter (\<lambda>c. c_metadatablock c = mb_id mb) (compound_rows s)))))"

definition blocks_of_review :: "store \<Rightarrow> review \<Rightarrow> metadatablock option list" where
  "blocks_of_review s r = outer (filter (\<lambda>b. mb_review b = r_id r) (metadatablock_rows s))"

text \<open>
  The two queries:
  \<open>values_list("metadatablocks__primitives__accepted", flat=True)\<close> and
  \<open>values_list("metadatablocks__compounds__primitives__accepted", flat=True)\<close> on
  \<open>Review.objects.filter(pk=review_id)\<close>.
\<close>

definition primitive_fields :: "store \<Rightarrow> uuid \<Rightarrow> bool option list" where
  "primitive_fields s review_id =
    concat (map (\<lambda>r. concat (map (primitives_of_block s) (blocks_of_review s r)))
      (filter (\<lambda>r. r_id r = review_id) (review_rows s)))"

definition compound_fields :: "store \<Rightarrow> uuid \<Rightarrow> bool option list" where
  "compound_fields s review_id =
    concat (map (\<lambda>r. concat (map (compounds_of_block s) (blocks_of_review s r)))
      (filter (\<lambda>r. r_id r = review_id) (review_rows s)))"

definition get_field_count :: "store \<Rightarrow> uuid \<Rightarrow> response" where
  "get_field_count s review_id =
    (let field_count = int (length (primitive_fields s review_id))
                        + int (length (compound_fields s review_id)) - 1;
         accepted_fields = length (filter (\<lambda>x. x = Some True)
                                    (primitive_fields s review_id @ compound_fields s review_id))
     in \<lparr>status = 200, data = FieldCount field_count accepted_fields\<rparr>)"

section \<open>The open-fields reconciler (openfields.py)\<close>

text \<open>
  One entry of the remote schema's \<open>fields\<close> dictionary. \<open>childFields\<close> is \<open>None\<close>
  when the entry has no such key, and the child entries in their order otherwise. The
  handlers read the dictionaries' values only, in order, so a dictionary is the list of
  its values.
\<close>

record child_field =
  cf_name :: string
  cf_displayName :: string

record schema_field =
  sf_name :: string
  sf_displayName :: string
  sf_childFields :: "child_field list option"

text \<open>
  \<open>x.replace(" ", "_").lower()\<close>. A string is the list of its UTF-8 bytes, so replacing
  the space byte is \<open>replace\<close>. \<open>str.lower\<close> follows Python's Unicode case table, which
  is not part of the repository: it is the parameter \<open>lower\<close> of everything below.
\<close>

definition snake :: "(string \<Rightarrow> string) \<Rightarrow> string \<Rightarrow> string" where
  "snake lower x = lower (map (\<lambda>c. if c = CHR '' '' then CHR ''_'' else c) x)"

definition children :: "schema_field \<Rightarrow> child_field list" where
  "children fld = (case sf_childFields fld of None \<Rightarrow> [] | Some cs \<Rightarrow> cs)"

definition get_child_field_names :: "schema_field list \<Rightarrow> string list" where
  "get_child_field_names flds = concat (map (\<lambda>fld. map cf_name (children fld)) flds)"

definition retrieve_primitives :: "(string \<Rightarrow> string) \<Rightarrow> schema_field list \<Rightarrow> string list" where
  "retrieve_primitives lower flds =
    (let child_field_names = get_child_field_names flds
     in map (\<lambda>fld. snake lower (sf_displayName fld))
          (filter (\<lambda>fld. sf_displayName fld \<notin> set child_field_names
                         \<and> sf_childFields fld = None) flds))"

definition retrieve_compounds :: "(string \<Rightarrow> string) \<Rightarrow> schema_field list \<Rightarrow> compound_entry list" where
  "retrieve_compounds lower flds =
    map (\<lambda>fld. \<lparr>ce_name = snake lower (sf_displayName fld),
                 ce_childFields = map (\<lambda>c. snake lower (cf_displayName c)) (children fld)\<rparr>)
      (filter (\<lambda>fld. sf_childFields fld \<noteq> None) flds)"

text \<open>
  \<open>_fetch_open_metadatablock_fields\<close>. \<open>get\<close> stands for \<open>requests.get(url)\<close>,
  \<open>raise_for_status()\<close> and \<open>response.json()["data"]["fields"]\<close> together: the fields of
  the payload, or the exception raised. The list threaded through is the log of the URLs
  requested, oldest first.
\<close>

definition fetch_open_metadatablock_fields ::
  "(string \<Rightarrow> string) \<Rightarrow> (string \<Rightarrow> error + schema_field list) \<Rightarrow> metadatablock \<Rightarrow> string
    \<Rightarrow> string list \<Rightarrow> (error + open_fields) \<times> string list" where
  "fetch_open_metadatablock_fields lower get mb url log =
    (case get url of
       Inl err \<Rightarrow> (Inl err, log @ [url])
     | Inr flds \<Rightarrow>
        (let primitives = retrieve_primitives lower flds;
             compounds = retrieve_compounds lower flds;
             all_compound_fields = concat (map ce_childFields compounds);
             primitives' = filter (\<lambda>p. p \<notin> set all_compound_fields) primitives
         in (Inr \<lparr>of_name = mb_name mb, of_primitives = primitives', of_compounds = compounds\<rparr>,
             log @ [url])))"

text \<open>The list comprehension of the endpoint over \<open>review.metadatablocks.all()\<close>.\<close>

fun fetch_open_loop ::
  "(string \<Rightarrow> string) \<Rightarrow> (string \<Rightarrow> error + schema_field list) \<Rightarrow> string \<Rightarrow> metadatablock list
    \<Rightarrow> string list \<Rightarrow> (error + open_fields list) \<times> string list" where
  "fetch_open_loop lower get site_url [] log = (Inr [], log)"
| "fetch_open_loop lower get site_url (mb # mbs) log =
    (case fetch_open_metadatablock_fields lower get mb
            (site_url @ ''/api/metadatablocks/'' @ mb_name mb) log of
       (Inl err, log1) \<Rightarrow> (Inl err, log1)
     | (Inr x, log1) \<Rightarrow>
        (case fetch_open_loop lower get site_url mbs log1 of
           (Inl err, log2) \<Rightarrow> (Inl err, log2)
         | (Inr xs, log2) \<Rightarrow> (Inr (x # xs), log2)))"

text \<open>
  \<open>fetch_open_metadatablock_fields_for_review\<close>. The result is paired with the log of
  the URLs requested. A review whose \<open>site_url\<close> is NULL makes \<open>site_url.endswith\<close>
  raise \<open>AttributeError\<close>.
\<close>

definition fetch_open_metadatablock_fields_for_review ::
  "(string \<Rightarrow> string) \<Rightarrow> (string \<Rightarrow> error + schema_field list) \<Rightarrow> store \<Rightarrow> uuid
    \<Rightarrow> (error + response) \<times> string list" where
  "fetch_open_metadatablock_fields_for_review lower get s review_pk =
    (case find (\<lambda>r. r_id r = review_pk) (review_rows s) of
       None \<Rightarrow>
         (Inr \<lparr>status = 404,
               data = MessageBody (''Review with ID '' @ [CHR 0x27] @ review_pk @ [CHR 0x27]
                                    @ '' does not exist.'')\<rparr>, [])
     | Some rvw \<Rightarrow>
        (case r_site_url rvw of
           None \<Rightarrow> (Inl AttributeError, [])
         | Some u \<Rightarrow>
            (let site_url = (if u \<noteq> [] \<and> last u = CHR ''/'' then butlast u else u)
             in case fetch_open_loop lower get site_url
                       (filter (\<lambda>b. mb_review b = r_id rvw) (metadatablock_rows s)) [] of
                  (Inl err, log) \<Rightarrow> (Inl err, log)
                | (Inr xs, log) \<Rightarrow> (Inr \<lparr>status = 200, data = OpenFieldsData xs\<rparr>, log))))"

section \<open>Vocabulary of the properties\<close>

subsection \<open>Emptiness\<close>

text \<open>
  The leaf values reachable from a node: everything that is not a model object, found by
  walking through objects and lists.
\<close>

fun leaves :: "item \<Rightarrow> item list"
  and leaves_node :: "node \<Rightarrow> item list"
  and leaves_val :: "pyval \<Rightarrow> item list"
  and leaves_items :: "item list \<Rightarrow> item list"
where
  "leaves (IObj flds) = leaves_node flds"
| "leaves INone = [INone]"
| "leaves (IStr x) = [IStr x]"
| "leaves (IAtom x) = [IAtom x]"
| "leaves_node [] = []"
| "leaves_node ((field_name, field_info, val) # rest) = leaves_val val @ leaves_node rest"
| "leaves_val (Single v) = leaves v"
| "leaves_val (Many vs) = leaves_items vs"
| "leaves_items [] = []"
| "leaves_items (v # vs) = leaves v @ leaves_items vs"

definition is_leaf :: "item \<Rightarrow> bool" where
  "is_leaf v = (case v of IObj flds \<Rightarrow> False | _ \<Rightarrow> True)"

text \<open>
  A node whose values have the shape its schema declares, as the classes easyDataverse
  generates have them: a repeatable field holds a list, a single field holds one value;
  a compound field holds model objects (a single one may be \<open>None\<close>), a primitive field
  holds scalars or \<open>None\<close>.
\<close>

fun wt_node :: "node \<Rightarrow> bool"
  and wt_field :: "finfo \<Rightarrow> pyval \<Rightarrow> bool"
  and wt_objs :: "item list \<Rightarrow> bool"
where
  "wt_node [] = True"
| "wt_node ((field_name, field_info, val) # rest) = (wt_field field_info val \<and> wt_node rest)"
| "wt_field field_info (Many entries) =
    (multiple field_info = Some True \<and>
     (if typeClass field_info = ''compound'' then wt_objs entries else list_all is_leaf entries))"
| "wt_field field_info (Single v) =
    (multiple field_info \<noteq> Some True \<and>
     (if typeClass field_info = ''compound''
      then (case v of IObj flds \<Rightarrow> wt_node flds | INone \<Rightarrow> True | _ \<Rightarrow> False)
      else is_leaf v))"
| "wt_objs [] = True"
| "wt_objs (IObj flds # vs) = (wt_node flds \<and> wt_objs vs)"
| "wt_objs (v # vs) = False"

text \<open>
  The emptiness check as the specification words it: each field in declaration order gets
  a verdict (a repeatable compound is empty iff every instance is recursively empty, a
  single compound iff it is recursively empty, a repeatable primitive iff every element is
  null, a single primitive iff its value is null); the scan answers false at the first
  field found non-empty and otherwise gives the verdict of the last field examined; a
  node with no field, and a value without a field schema, are empty.
\<close>

fun spec_is_empty :: "item \<Rightarrow> bool"
  and spec_scan :: "node \<Rightarrow> bool"
  and spec_field_empty :: "finfo \<Rightarrow> pyval \<Rightarrow> bool"
  and spec_all_empty :: "item list \<Rightarrow> bool"
where
  "spec_is_empty (IObj flds) = spec_scan flds"
| "spec_is_empty v = True"
| "spec_scan [] = True"
| "spec_scan [(field_name, field_info, val)] = spec_field_empty field_info val"
| "spec_scan ((field_name, field_info, val) # f # rest) =
    (if \<not> spec_field_empty field_info val then False else spec_scan (f # rest))"
| "spec_field_empty field_info val =
    (let repeatable = (multiple field_info = Some True);
         is_compound = (typeClass field_info = ''compound'')
     in if is_compound \<and> repeatable then
          (case val of Many vs \<Rightarrow> spec_all_empty vs | Single v \<Rightarrow> spec_is_empty v)
        else if is_compound then
          (case val of Single v \<Rightarrow> spec_is_empty v | Many vs \<Rightarrow> spec_all_empty vs)
        else if repeatable then
          (case val of Many vs \<Rightarrow> list_all (\<lambda>v. v = INone) vs | Single v \<Rightarrow> v = INone)
        else val = Single INone)"
| "spec_all_empty [] = True"
| "spec_all_empty (v # vs) = (spec_is_empty v \<and> spec_all_empty vs)"

text \<open>Schema entries and a small citation-like block used as running examples.\<close>

definition prim1 :: finfo where
  "prim1 = \<lparr>description = ''a single primitive'', multiple = Some False, typeClass = ''primitive''\<rparr>"

definition primN :: finfo where
  "primN = \<lparr>description = ''a repeatable primitive'', multiple = Some True, typeClass = ''primitive''\<rparr>"

definition comp1 :: finfo where
  "comp1 = \<lparr>description = ''a single compound'', multiple = None, typeClass = ''compound''\<rparr>"

definition compN :: finfo where
  "compN = \<lparr>description = ''a repeatable compound'', multiple = Some True, typeClass = ''compound''\<rparr>"

definition author :: "string \<Rightarrow> item" where
  "author n = IObj [(''name'', prim1, Single (IStr n)), (''affiliation'', prim1, Single INone)]"

definition citation :: node where
  "citation =
    [(''title'', prim1, Single (IStr ''Data'')),
     (''subtitle'', prim1, Single INone),
     (''subject'', primN, Many [IStr ''Physics'', IStr ''Chemistry'']),
     (''author'', compN, Many [author ''Ada'', author ''Bob'']),
     (''series'', comp1, Single INone)]"

definition hollow :: node where
  "hollow =
    [(''title'', prim1, Single INone),
     (''subject'', primN, Many [INone]),
     (''author'', compN, Many [IObj [(''name'', prim1, Single INone)], IObj []]),
     (''series'', comp1, Single (IObj [(''name'', prim1, Single INone)]))]"

subsection \<open>A small world for the examples\<close>

text \<open>
  A client that, like a validated URL field, rejects a missing \<open>site_url\<close>; a remote
  dataset with one block that carries values and one that carries none; keys \<open>u\<close>,
  \<open>uu\<close>, \<open>uuu\<close>, ... in the order they are drawn.
\<close>

definition demo_env :: env where
  "demo_env =
    \<lparr>Dataverse = (\<lambda>site_url api_token.
        case site_url of None \<Rightarrow> Inl (Raised ''ValidationError'') | Some u \<Rightarrow> Inr ()),
     load_dataset = (\<lambda>site_url api_token doi. Inr [(''citation'', citation), (''geospatial'', hollow)]),
     now = 42,
     uuid4 = (\<lambda>n. replicate (Suc n) CHR ''u''),
     model_str = (\<lambda>flds. ''<model>'')\<rparr>"

definition empty_store :: store where
  "empty_store =
    \<lparr>review_rows = [], metadatablock_rows = [], compound_rows = [], field_rows = [],
     file_rows = [], message_rows = [], uuids_drawn = 0\<rparr>"

definition demo_review :: "uuid \<Rightarrow> string \<Rightarrow> review" where
  "demo_review k doi =
    \<lparr>r_id = k, r_reviewer = None, r_doi = doi, r_site_url = Some ''https://demo.dataverse.org/'',
     r_revision = 1, r_accepted = False, r_date = 7\<rparr>"

definition demo_field :: "uuid \<Rightarrow> uuid option \<Rightarrow> uuid option \<Rightarrow> bool option \<Rightarrow> field" where
  "demo_field k mb cp acc =
    \<lparr>f_id = k, f_metadatablock = mb, f_compound = cp, f_name = ''name'', f_description = [],
     f_accepted = acc, f_value = ''value'', f_history = [(''Original'', ''value'')],
     f_field_type = ''primitive''\<rparr>"

text \<open>
  One review with one metadatablock: three primitives directly under the block (two
  accepted) and one compound with two primitives (one accepted).
\<close>

definition counted_store :: store where
  "counted_store =
    \<lparr>review_rows = [demo_review ''r1'' ''doi:10.1/abc''],
     metadatablock_rows = [\<lparr>mb_id = ''b1'', mb_review = ''r1'', mb_name = ''citation'', mb_description = []\<rparr>],
     compound_rows = [\<lparr>c_id = ''c1'', c_metadatablock = ''b1'', c_name = ''author'', c_description = [],
                        c_accepted = False, c_field_type = ''compound''\<rparr>],
     field_rows =
       [demo_field ''f1'' (Some ''b1'') None (Some True),
        demo_field ''f2'' (Some ''b1'') None (Some True),
        demo_field ''f3'' (Some ''b1'') None None,
        demo_field ''f4'' None (Some ''c1'') (Some True),
        demo_field ''f5'' None (Some ''c1'') (Some False)],
     file_rows = [], message_rows = [], uuids_drawn = 9\<rparr>"

text \<open>Two reviews of the same DOI, as an update of a review's \<open>doi\<close> can leave them.\<close>

definition twin_store :: store where
  "twin_store =
    empty_store\<lparr>review_rows := [demo_review ''r1'' ''doi:10.1/abc'', demo_review ''r2'' ''doi:10.1/abc'']\<rparr>"

definition demo_block :: metadatablock where
  "demo_block = \<lparr>mb_id = ''b1'', mb_review = ''r1'', mb_name = ''citation'', mb_description = []\<rparr>"

definition demo_compound :: compound where
  "demo_compound = \<lparr>c_id = ''c1'', c_metadatablock = ''b1'', c_name = ''author'', c_description = [],
                      c_accepted = False, c_field_type = ''compound''\<rparr>"

text \<open>
  A block with a private field, a null field, an empty list and one compound entry, and
  the store the flattener leaves when it runs on it from the empty store.
\<close>

definition mixed :: node where
  "mixed =
    [(''_internal'', prim1, Single (IStr ''x'')),
     (''title'', prim1, Single (IStr ''Data'')),
     (''subtitle'', prim1, Single INone),
     (''keyword'', primN, Many []),
     (''author'', compN, Many [author ''Ada''])]"

definition mixed_flat :: store where
  "mixed_flat =
    \<lparr>review_rows = [], metadatablock_rows = [],
     compound_rows =
       [\<lparr>c_id = ''uu'', c_metadatablock = ''b1'', c_name = ''author'', c_description = [],
         c_accepted = False, c_field_type = ''compound''\<rparr>],
     field_rows =
       [\<lparr>f_id = ''u'', f_metadatablock = Some ''b1'', f_compound = None, f_name = ''title'',
         f_description = ''a single primitive'', f_accepted = None, f_value = ''Data'',
         f_history = [(''Original'', ''Data'')], f_field_type = ''primitive''\<rparr>,
        \<lparr>f_id = ''uuu'', f_metadatablock = None, f_compound = Some ''uu'', f_name = ''name'',
         f_description = ''a single primitive'', f_accepted = None, f_value = ''Ada'',
         f_history = [(''Original'', ''Ada'')], f_field_type = ''primitive''\<rparr>],
     file_rows = [], message_rows = [], uuids_drawn = 3\<rparr>"

definition two_blocks :: "(string \<times> node) list" where
  "two_blocks = [(''citation'', citation), (''geospatial'', hollow)]"

text \<open>
  A block in the manner of the astrophysics block, whose central wavelengths are a
  repeatable field of floats, and a remote that serves it.
\<close>

definition astro :: node where
  "astro =
    [(''coverage_spectral_central_wavelength'', primN, Many [IAtom ''4.5'', IAtom ''6.0'']),
     (''resolution_spatial'', prim1, Single (IStr ''1 arcsec''))]"

definition astro_env :: env where
  "astro_env = demo_env\<lparr>load_dataset := (\<lambda>site_url api_token doi. Inr [(''astrophysics'', astro)])\<rparr>"

subsection \<open>Open fields\<close>

text \<open>
  \<open>str.lower\<close> on text whose capitals are all among the ASCII letters \<open>A\<close> to \<open>Z\<close>: the
  instance of \<open>lower\<close> for the example schemas, all of which are such text.
\<close>

definition ascii_lower :: "string \<Rightarrow> string" where
  "ascii_lower x =
    map (\<lambda>c. case map_of (zip ''ABCDEFGHIJKLMNOPQRSTUVWXYZ'' ''abcdefghijklmnopqrstuvwxyz'') c of
                None \<Rightarrow> c
              | Some l \<Rightarrow> l) x"

text \<open>
  The schema of the specification's example: \<open>A\<close> without children, \<open>B\<close> with children
  \<open>C\<close> and \<open>D\<close>, and \<open>C\<close> once more as a field of its own.
\<close>

definition schema_a :: schema_field where
  "schema_a = \<lparr>sf_name = ''a'', sf_displayName = ''A'', sf_childFields = None\<rparr>"

definition schema_b :: schema_field where
  "schema_b = \<lparr>sf_name = ''b'', sf_displayName = ''B'',
                sf_childFields = Some [\<lparr>cf_name = ''c'', cf_displayName = ''C''\<rparr>,
                                       \<lparr>cf_name = ''d'', cf_displayName = ''D''\<rparr>]\<rparr>"

definition schema_c :: schema_field where
  "schema_c = \<lparr>sf_name = ''c'', sf_displayName = ''C'', sf_childFields = None\<rparr>"

text \<open>
  A citation-like schema as a Dataverse installation lists it: the compound \<open>author\<close>
  with its two children, and the children once more as fields of their own, each with the
  display name it has as a child.
\<close>

definition schema_title :: schema_field where
  "schema_title = \<lparr>sf_name = ''title'', sf_displayName = ''Title'', sf_childFields = None\<rparr>"

definition schema_author :: schema_field where
  "schema_author =
    \<lparr>sf_name = ''author'', sf_displayName = ''Author'',
     sf_childFields = Some [\<lparr>cf_name = ''authorName'', cf_displayName = ''Author Name''\<rparr>,
                            \<lparr>cf_name = ''authorAffiliation'', cf_displayName = ''Author Affiliation''\<rparr>]\<rparr>"

definition schema_author_name :: schema_field where
  "schema_author_name =
    \<lparr>sf_name = ''authorName'', sf_displayName = ''Author Name'', sf_childFields = None\<rparr>"

definition schema_alternative_title :: schema_field where
  "schema_alternative_title =
    \<lparr>sf_name = ''alternativeTitle'', sf_displayName = ''Alternative Title'', sf_childFields = None\<rparr>"

text \<open>
  Two schemas on which the first test of \<open>_retrieve_primitives\<close>, a display name looked
  up among the children's \<open>name\<close> values, goes wrong. In \<open>schema_note\<close> the field
  \<open>remark\<close> has no children and is no field's child, but its display name is the
  \<open>name\<close> of a child of \<open>software\<close>. In \<open>schema_renamed\<close> the field \<open>authorName\<close> is the
  child of \<open>author\<close>, listed once more as a field of its own under a longer display name.
\<close>

definition schema_note :: "schema_field list" where
  "schema_note =
    [\<lparr>sf_name = ''software'', sf_displayName = ''Software'',
      sf_childFields = Some [\<lparr>cf_name = ''version'', cf_displayName = ''Software Version''\<rparr>]\<rparr>,
     \<lparr>sf_name = ''remark'', sf_displayName = ''version'', sf_childFields = None\<rparr>]"

definition schema_renamed :: "schema_field list" where
  "schema_renamed =
    [\<lparr>sf_name = ''author'', sf_displayName = ''Author'',
      sf_childFields = Some [\<lparr>cf_name = ''authorName'', cf_displayName = ''Name''\<rparr>]\<rparr>,
     \<lparr>sf_name = ''authorName'', sf_displayName = ''Author Name'', sf_childFields = None\<rparr>]"

subsection \<open>Flattening\<close>

text \<open>
  \<open>grows s s' nb nc nf\<close>: the store \<open>s'\<close> is \<open>s\<close> with the Metadatablock rows \<open>nb\<close>, the
  Compound rows \<open>nc\<close> and the Field rows \<open>nf\<close> appended, and nothing else changed but the
  count of keys drawn.
\<close>

definition grows :: "store \<Rightarrow> store \<Rightarrow> metadatablock list \<Rightarrow> compound list \<Rightarrow> field list \<Rightarrow> bool" where
  "grows s s' nb nc nf =
    (review_rows s' = review_rows s \<and>
     metadatablock_rows s' = metadatablock_rows s @ nb \<and>
     compound_rows s' = compound_rows s @ nc \<and>
     field_rows s' = field_rows s @ nf \<and>
     file_rows s' = file_rows s \<and>
     message_rows s' = message_rows s)"

text \<open>
  A Field row hangs under the blocks \<open>nb\<close> and compounds \<open>nc\<close> when exactly one of its
  two foreign keys is set and points to one of them.
\<close>

definition under :: "metadatablock list \<Rightarrow> compound list \<Rightarrow> field \<Rightarrow> bool" where
  "under nb nc f =
    (case f_compound f of
       None \<Rightarrow> (case f_metadatablock f of None \<Rightarrow> False | Some b \<Rightarrow> b \<in> set (map mb_id nb))
     | Some c \<Rightarrow> f_metadatablock f = None \<and> c \<in> set (map c_id nc))"

text \<open>
  The fields of a block the flattener passes over, and what it is to keep: the names of
  the other primitive fields, and the name of each other compound field once per entry.
\<close>

definition skipped :: "string \<Rightarrow> pyval \<Rightarrow> bool" where
  "skipped field_name val = (startswith_underscore field_name \<or> val = Single INone \<or> val = Many [])"

definition entries_of :: "pyval \<Rightarrow> item list" where
  "entries_of val = (case val of Many entries \<Rightarrow> entries | Single v \<Rightarrow> [v])"

definition kept_primitives :: "node \<Rightarrow> string list" where
  "kept_primitives block =
    map fst (filter (\<lambda>(field_name, field_info, val).
      \<not> skipped field_name val \<and> typeClass field_info \<noteq> ''compound'') block)"

definition kept_compounds :: "node \<Rightarrow> string list" where
  "kept_compounds block =
    concat (map (\<lambda>(field_name, field_info, val). replicate (length (entries_of val)) field_name)
      (filter (\<lambda>(field_name, field_info, val).
         \<not> skipped field_name val \<and> typeClass field_info = ''compound'') block))"

text \<open>The names of the blocks of a dataset that the emptiness filter lets through.\<close>

definition surviving :: "(string \<times> node) list \<Rightarrow> string list" where
  "surviving blocks = map fst (filter (\<lambda>(block_name, block). is_empty (IObj block) = Inr False) blocks)"

section \<open>The emptiness filter: refinement and characterisation\<close>

lemma is_leaf_simps [simp]:
  "is_leaf INone" "is_leaf (IStr x)" "is_leaf (IAtom x)" "\<not> is_leaf (IObj flds)"
  by (simp_all add: is_leaf_def)

lemma spec_all_empty_map: "list_all id (map spec_is_empty es) = spec_all_empty es"
  by (induction es) simp_all

lemma spec_scan_Cons:
  "spec_scan ((field_name, field_info, val) # rest) =
     (spec_field_empty field_info val \<and> spec_scan rest)"
  by (cases rest) auto

lemma is_empty_refines:
  "(case it of IObj flds \<Rightarrow> wt_node flds | _ \<Rightarrow> True) \<Longrightarrow> is_empty it = Inr (spec_is_empty it)"
  "wt_node nd \<Longrightarrow> is_empty_loop emp nd = Inr (if nd = [] then emp else spec_scan nd)"
  "wt_field field_info val \<Longrightarrow> field_verdict field_info val = Inr (spec_field_empty field_info val)"
  "wt_objs es \<Longrightarrow> is_empty_entries es = Inr (map spec_is_empty es)"
proof (induction it and emp nd and field_info val and es
       rule: is_empty_is_empty_loop_field_verdict_is_empty_entries.induct)
  case (6 emp field_name field_info val rest)
  from "6.prems" have wf: "wt_field field_info val" and wr: "wt_node rest"
    by simp_all
  have v: "field_verdict field_info val = Inr (spec_field_empty field_info val)"
    using "6.IH"(1) wf .
  show ?case
  proof (cases "spec_field_empty field_info val")
    case False
    with v show ?thesis
      by (simp del: field_verdict.simps spec_field_empty.simps add: spec_scan_Cons)
  next
    case True
    with v "6.IH"(2) [of True] wr
    have "is_empty_loop True rest = Inr (if rest = [] then True else spec_scan rest)"
      by (simp del: field_verdict.simps spec_field_empty.simps)
    with v True show ?thesis
      by (simp del: field_verdict.simps spec_field_empty.simps add: spec_scan_Cons)
  qed
next
  case (7 field_info val)
  show ?case
  proof (cases val)
    case (Many entries)
    from "7.prems" Many have m: "multiple field_info = Some True"
      by simp
    show ?thesis
    proof (cases "typeClass field_info = ''compound''")
      case True
      from "7.prems" Many True have w: "wt_objs entries"
        by simp
      have "is_empty_entries entries = Inr (map spec_is_empty entries)"
        using "7.IH"(1) [OF refl refl _ Many w] True m by simp
      with Many True m show ?thesis
        by (simp add: spec_all_empty_map)
    next
      case False
      with Many m show ?thesis
        by simp
    qed
  next
    case (Single v)
    from "7.prems" Single have m: "multiple field_info \<noteq> Some True"
      by simp
    then have m': "(case multiple field_info of None \<Rightarrow> False | Some b \<Rightarrow> b) = False"
      by (cases "multiple field_info") auto
    show ?thesis
    proof (cases "typeClass field_info = ''compound''")
      case True
      from "7.prems" Single True
      have w: "case v of IObj flds \<Rightarrow> wt_node flds | _ \<Rightarrow> True"
        by (cases v) simp_all
      have "is_empty v = Inr (spec_is_empty v)"
        using "7.IH"(2) [OF refl refl _ _ Single w] True m' by simp
      with Single True m m' show ?thesis
        by simp
    next
      case False
      with Single m m' show ?thesis
        by simp
    qed
  qed
next
  case (9 entry entries)
  then show ?case by (cases entry) auto
qed simp_all

lemma spec_is_empty_leaves:
  "(case it of IObj flds \<Rightarrow> wt_node flds | INone \<Rightarrow> True | _ \<Rightarrow> False) \<Longrightarrow>
     spec_is_empty it = list_all (\<lambda>l. l = INone) (leaves it)"
  "wt_node nd \<Longrightarrow> spec_scan nd = list_all (\<lambda>l. l = INone) (leaves_node nd)"
  "(\<And>field_info. wt_field field_info val \<Longrightarrow>
     spec_field_empty field_info val = list_all (\<lambda>l. l = INone) (leaves_val val))"
  "(wt_objs es \<longrightarrow> spec_all_empty es = list_all (\<lambda>l. l = INone) (leaves_items es)) \<and>
   (list_all is_leaf es \<longrightarrow>
      list_all (\<lambda>v. v = INone) es = list_all (\<lambda>l. l = INone) (leaves_items es))"
proof (induction it and nd and val and es rule: leaves_leaves_node_leaves_val_leaves_items.induct)
  case (6 field_name field_info val rest)
  then show ?case
    by (simp del: spec_field_empty.simps spec_scan.simps add: spec_scan_Cons)
next
  case (7 v)
  then show ?case
    by (cases v) (auto simp: Let_def)
next
  case (8 vs)
  then show ?case
    by (auto simp: Let_def)
next
  case (10 v vs)
  then show ?case
    by (cases v) auto
qed simp_all

lemma is_empty_loop_append:
  "is_empty_loop emp pre = Inr True \<Longrightarrow>
     is_empty_loop emp (pre @ rest) = is_empty_loop True rest"
proof (induction pre arbitrary: emp)
  case Nil
  then show ?case by simp
next
  case (Cons f pre)
  obtain n fi v where f: "f = (n, fi, v)"
    by (cases f) auto
  show ?case
  proof (cases "field_verdict fi v")
    case (Inl e)
    with Cons.prems f show ?thesis
      by (simp del: field_verdict.simps)
  next
    case (Inr b)
    with Cons.prems f have b: "b" and "is_empty_loop b pre = Inr True"
      by (auto simp del: field_verdict.simps split: if_splits)
    with Cons.IH [of b] Inr f show ?thesis
      by (simp del: field_verdict.simps)
  qed
qed

lemmas ex_defs = citation_def hollow_def author_def prim1_def primN_def comp1_def compN_def

text \<open>
  C2. On a node whose values have the shape their schema declares, \<open>_is_empty\<close> returns
  (it raises nothing) exactly what the specification's field-by-field scan computes, and
  that is true iff every reachable leaf value is null. On any node, well shaped or not:
  once the fields before a field were all found empty, a non-empty verdict for that field
  is returned at once as false, whatever comes after it, and the verdict of a last field
  is the result. A node with no field, and a value without a field schema, are empty.
\<close>

theorem is_empty_contract:
  "wt_node nd \<Longrightarrow>
     is_empty (IObj nd) = Inr (spec_is_empty (IObj nd)) \<and>
     ((is_empty (IObj nd) = Inr True) = list_all (\<lambda>l. l = INone) (leaves (IObj nd))) \<and>
     (is_empty (IObj pre) = Inr True \<and> field_verdict field_info val = Inr False \<longrightarrow>
        is_empty (IObj (pre @ (field_name, field_info, val) # post)) = Inr False) \<and>
     (is_empty (IObj pre) = Inr True \<longrightarrow>
        is_empty (IObj (pre @ [(field_name, field_info, val)])) = field_verdict field_info val) \<and>
     is_empty (IObj []) = Inr True \<and>
     is_empty INone = Inr True \<and> is_empty (IStr x) = Inr True \<and> is_empty (IAtom x) = Inr True"
proof -
  assume w: "wt_node nd"
  have r: "is_empty (IObj nd) = Inr (spec_is_empty (IObj nd))"
    using is_empty_refines(1) [of "IObj nd"] w by simp
  have l: "spec_is_empty (IObj nd) = list_all (\<lambda>l. l = INone) (leaves (IObj nd))"
    using spec_is_empty_leaves(1) [of "IObj nd"] w by simp
  have a: "is_empty (IObj pre) = Inr True \<Longrightarrow>
      is_empty (IObj (pre @ (field_name, field_info, val) # post)) =
      is_empty_loop True ((field_name, field_info, val) # post)" for post
    using is_empty_loop_append [of True pre] by simp
  have s: "is_empty (IObj pre) = Inr True \<and> field_verdict field_info val = Inr False \<longrightarrow>
        is_empty (IObj (pre @ (field_name, field_info, val) # post)) = Inr False"
    using a [of post] by (simp del: field_verdict.simps)
  have t: "is_empty (IObj pre) = Inr True \<longrightarrow>
        is_empty (IObj (pre @ [(field_name, field_info, val)])) = field_verdict field_info val"
    using a [of "[]"]
    by (cases "field_verdict field_info val") (auto simp del: field_verdict.simps)
  from r l s t show ?thesis
    by simp
qed

theorem is_empty_contract_witness:
  "wt_node citation \<and>
   is_empty (IObj citation) = Inr False \<and>
   \<not> list_all (\<lambda>l. l = INone) (leaves (IObj citation)) \<and>
   wt_node hollow \<and>
   is_empty (IObj hollow) = Inr True \<and>
   list_all (\<lambda>l. l = INone) (leaves (IObj hollow)) \<and>
   is_empty (IObj [(''title'', prim1, Single INone)]) = Inr True \<and>
   field_verdict primN (Many [IStr ''Physics'']) = Inr False \<and>
   field_verdict compN (Single INone) = Inl TypeError \<and>
   is_empty (IObj ([(''title'', prim1, Single INone)]
                   @ (''subject'', primN, Many [IStr ''Physics''])
                   # [(''author'', compN, Single INone)])) = Inr False \<and>
   is_empty (IObj ([(''title'', prim1, Single INone)]
                   @ [(''author'', compN, Single INone)])) = Inl TypeError"
proof -
  have w1: "wt_node citation"
    by (simp add: ex_defs)
  have w2: "wt_node hollow"
    by (simp add: ex_defs)
  have l1: "\<not> list_all (\<lambda>l. l = INone) (leaves (IObj citation))"
    by (simp add: ex_defs)
  have l2: "list_all (\<lambda>l. l = INone) (leaves (IObj hollow))"
    by (simp add: ex_defs)
  have p: "is_empty (IObj [(''title'', prim1, Single INone)]) = Inr True"
    by (simp add: ex_defs)
  have v: "field_verdict primN (Many [IStr ''Physics'']) = Inr False"
    by (simp add: ex_defs)
  have v': "field_verdict compN (Single INone) = Inl TypeError"
    by (simp add: ex_defs)
  note c1 = is_empty_contract [OF w1, of "[(''title'', prim1, Single INone)]"
      primN "Many [IStr ''Physics'']" "''subject''" "[(''author'', compN, Single INone)]"]
  note c2 = is_empty_contract [OF w2, of "[(''title'', prim1, Single INone)]"
      compN "Single INone" "''author''" "[]"]
  note c1a = c1 [THEN conjunct1]
  note c1b = c1 [THEN conjunct2, THEN conjunct1]
  note c1c = c1 [THEN conjunct2, THEN conjunct2, THEN conjunct1]
  note c2b = c2 [THEN conjunct2, THEN conjunct1]
  note c2d = c2 [THEN conjunct2, THEN conjunct2, THEN conjunct2, THEN conjunct1]
  have e1: "is_empty (IObj citation) = Inr False"
    using c1a c1b l1 by (metis (full_types))
  have e2: "is_empty (IObj hollow) = Inr True"
    using c2b l2 by blast
  have e3: "is_empty (IObj ([(''title'', prim1, Single INone)]
                   @ (''subject'', primN, Many [IStr ''Physics''])
                   # [(''author'', compN, Single INone)])) = Inr False"
    using c1c p v by blast
  have e4: "is_empty (IObj ([(''title'', prim1, Single INone)]
                   @ [(''author'', compN, Single INone)])) = Inl TypeError"
    using c2d p v' by (metis (full_types))
  from w1 w2 l1 l2 p v v' e1 e2 e3 e4 show ?thesis
    by blast
qed

section \<open>The tree flattener: stored values\<close>

lemmas world_defs = demo_env_def empty_store_def demo_review_def demo_field_def counted_store_def
  twin_store_def

lemma strs_of_Inr: "strs_of xs = Inr ss \<Longrightarrow> xs = map IStr ss"
proof (induction xs arbitrary: ss)
  case Nil
  then show ?case by simp
next
  case (Cons x xs)
  then show ?case
    by (cases x) (auto split: sum.splits)
qed

lemma strs_of_map: "strs_of (map IStr ss) = Inr ss"
  by (induction ss) simp_all

text \<open>
  The two places where a Field row is saved: both save what \<open>_process_primitive\<close>
  returned, through \<open>_create_and_save\<close>.
\<close>

lemma block_primitive_step:
  "\<not> startswith_underscore n \<Longrightarrow> val \<noteq> Single INone \<Longrightarrow> val \<noteq> Many [] \<Longrightarrow>
   typeClass fi \<noteq> ''compound'' \<Longrightarrow>
   process_primitive (model_str e) n val fi None = Inr a \<Longrightarrow>
     process_metadatablock e ((n, fi, val) # rest) mb s =
       process_metadatablock e rest mb (snd (create_field e (Some (mb_id mb)) None a s))"
  by simp

lemma compound_primitive_step:
  "\<not> startswith_underscore n \<Longrightarrow> val \<noteq> Single INone \<Longrightarrow>
   process_primitive (model_str e) n val fi (Some fk) = Inr a \<Longrightarrow>
     process_compound_loop e ((n, fi, val) # rest) fk s =
       process_compound_loop e rest fk (snd (create_field e None (Some (c_id fk)) a s))"
  by simp

text \<open>
  C7. Whenever \<open>_process_primitive\<close> returns for a list value and the Field row is saved
  from what it returned (the only way the pipeline saves a Field row), the list held
  strings only, the stored value is those strings joined by the two-character separator
  \<open>", "\<close>, and the stored history is \<open>{"Original": value}\<close> with that same string.
\<close>

theorem list_primitive_joined:
  "process_primitive ms name (Many xs) field_info parent = Inr a \<Longrightarrow>
   create_field e mb cp a s = (row, s') \<Longrightarrow>
     (\<exists>ss. xs = map IStr ss \<and> f_value row = str_join '', '' ss) \<and>
     f_history row = [(''Original'', f_value row)] \<and>
     field_rows s' = field_rows s @ [row] \<and>
     length '', '' = 2"
  by (auto simp: py_join_def create_field_def draw_uuid_def Let_def
      split: sum.splits dest: strs_of_Inr)

theorem list_primitive_joined_witness:
  "process_primitive (model_str demo_env) ''subject'' (Many [IStr ''Physics'', IStr ''Chemistry''])
      primN None =
     Inr \<lparr>a_name = ''subject'', a_description = ''a repeatable primitive'',
          a_value = ''Physics, Chemistry'', a_history = [(''Original'', ''Physics, Chemistry'')]\<rparr> \<and>
   f_value (fst (create_field demo_env (Some ''b1'') None
       \<lparr>a_name = ''subject'', a_description = ''a repeatable primitive'',
        a_value = ''Physics, Chemistry'', a_history = [(''Original'', ''Physics, Chemistry'')]\<rparr>
       empty_store)) = ''Physics, Chemistry'' \<and>
   f_history (fst (create_field demo_env (Some ''b1'') None
       \<lparr>a_name = ''subject'', a_description = ''a repeatable primitive'',
        a_value = ''Physics, Chemistry'', a_history = [(''Original'', ''Physics, Chemistry'')]\<rparr>
       empty_store)) = [(''Original'', ''Physics, Chemistry'')]"
proof -
  let ?a = "\<lparr>a_name = ''subject'', a_description = ''a repeatable primitive'',
        a_value = ''Physics, Chemistry'', a_history = [(''Original'', ''Physics, Chemistry'')]\<rparr>"
  have p: "process_primitive (model_str demo_env) ''subject''
      (Many [IStr ''Physics'', IStr ''Chemistry'']) primN None = Inr ?a"
    by (simp add: py_join_def primN_def)
  have c: "create_field demo_env (Some ''b1'') None ?a empty_store =
      (fst (create_field demo_env (Some ''b1'') None ?a empty_store),
       snd (create_field demo_env (Some ''b1'') None ?a empty_store))"
    by simp
  have v: "f_value (fst (create_field demo_env (Some ''b1'') None ?a empty_store)) = ''Physics, Chemistry''"
    by (simp add: create_field_def draw_uuid_def Let_def)
  from list_primitive_joined [OF p c] v p show ?thesis
    by simp
qed

text \<open>
  C10. In the loop over a compound entry's sub-fields, a sub-field whose value is the empty
  list (and whose name has no leading underscore) is not skipped: one Field row is saved
  for it, with the empty string as value and \<open>{"Original": ""}\<close> as history, and the
  loop goes on. The loop over a block's fields skips the same field.
\<close>

theorem compound_keeps_empty_list:
  "\<not> startswith_underscore field_name \<Longrightarrow>
     process_compound e (IObj ((field_name, field_info, Many []) # rest)) foreign_key s =
       process_compound e (IObj rest) foreign_key
         (s\<lparr>uuids_drawn := Suc (uuids_drawn s),
            field_rows := field_rows s @
              [\<lparr>f_id = uuid4 e (uuids_drawn s), f_metadatablock = None,
                f_compound = Some (c_id foreign_key), f_name = field_name,
                f_description = description field_info, f_accepted = None, f_value = [],
                f_history = [(''Original'', [])], f_field_type = ''primitive''\<rparr>]\<rparr>) \<and>
     process_metadatablock e ((field_name, field_info, Many []) # rest) mb s =
       process_metadatablock e rest mb s"
  by (simp add: py_join_def create_field_def draw_uuid_def Let_def)

theorem compound_keeps_empty_list_witness:
  "\<not> startswith_underscore ''keyword'' \<and>
   process_compound demo_env (IObj [(''keyword'', primN, Many [])]) demo_compound empty_store =
     (Inr (),
      empty_store\<lparr>uuids_drawn := 1,
        field_rows :=
          [\<lparr>f_id = ''u'', f_metadatablock = None, f_compound = Some ''c1'', f_name = ''keyword'',
            f_description = ''a repeatable primitive'', f_accepted = None, f_value = [],
            f_history = [(''Original'', [])], f_field_type = ''primitive''\<rparr>]\<rparr>) \<and>
   process_metadatablock demo_env [(''keyword'', primN, Many [])] demo_block empty_store =
     (Inr (), empty_store)"
proof -
  have h: "\<not> startswith_underscore ''keyword''"
    by (simp add: startswith_underscore_def)
  from compound_keeps_empty_list [OF h, of demo_env primN "[]" demo_compound empty_store demo_block]
  show ?thesis
    using h by (simp add: demo_env_def empty_store_def primN_def demo_compound_def)
qed

section \<open>The tree flattener: which rows are written\<close>

lemma grows_refl: "grows s s [] [] []"
  by (simp add: grows_def)

lemma grows_trans:
  "grows s s1 nb1 nc1 nf1 \<Longrightarrow> grows s1 s2 nb2 nc2 nf2 \<Longrightarrow>
     grows s s2 (nb1 @ nb2) (nc1 @ nc2) (nf1 @ nf2)"
  by (simp add: grows_def)

lemma grows_create_field:
  "grows s (snd (create_field e mb cp a s)) [] [] [fst (create_field e mb cp a s)]"
  by (simp add: grows_def create_field_def draw_uuid_def Let_def)

lemma create_field_row [simp]:
  "f_metadatablock (fst (create_field e mb cp a s)) = mb"
  "f_compound (fst (create_field e mb cp a s)) = cp"
  "f_name (fst (create_field e mb cp a s)) = a_name a"
  "f_value (fst (create_field e mb cp a s)) = a_value a"
  "f_history (fst (create_field e mb cp a s)) = a_history a"
  by (simp_all add: create_field_def draw_uuid_def Let_def)

lemma grows_create_compound:
  "grows s (snd (create_compound e mb n s)) [] [fst (create_compound e mb n s)] []"
  by (simp add: grows_def create_compound_def draw_uuid_def Let_def)

lemma create_compound_row [simp]:
  "c_metadatablock (fst (create_compound e mb n s)) = mb_id mb"
  "c_name (fst (create_compound e mb n s)) = n"
  by (simp_all add: create_compound_def draw_uuid_def Let_def)

lemma grows_create_metadatablock:
  "grows s (snd (create_metadatablock e rvw n s)) [fst (create_metadatablock e rvw n s)] [] []"
  by (simp add: grows_def create_metadatablock_def draw_uuid_def Let_def)

lemma create_metadatablock_row [simp]:
  "mb_review (fst (create_metadatablock e rvw n s)) = r_id rvw"
  "mb_name (fst (create_metadatablock e rvw n s)) = n"
  by (simp_all add: create_metadatablock_def draw_uuid_def Let_def)

lemma process_primitive_name:
  "process_primitive ms n v fi p = Inr a \<Longrightarrow> a_name a = n"
  by (cases v) (auto split: sum.splits)

lemma process_compound_loop_grows:
  "process_compound_loop e flds fk s = (r, s') \<Longrightarrow>
     \<exists>nf. grows s s' [] [] nf \<and>
       list_all (\<lambda>f. f_compound f = Some (c_id fk) \<and> f_metadatablock f = None) nf"
proof (induction e flds fk s rule: process_compound_loop.induct)
  case (1 e foreign_key s)
  then show ?case
    by (auto simp: grows_refl intro: exI [of _ "[]"])
next
  case (2 e field_name field_info val rest foreign_key s)
  show ?case
  proof (cases "startswith_underscore field_name \<or> val = Single INone")
    case True
    with 2 show ?thesis
      by simp
  next
    case False
    show ?thesis
    proof (cases "process_primitive (model_str e) field_name val field_info (Some foreign_key)")
      case (Inl err)
      with False "2.prems" have "s' = s"
        by simp
      then show ?thesis
        by (auto simp: grows_refl intro: exI [of _ "[]"])
    next
      case (Inr a)
      let ?c = "create_field e None (Some (c_id foreign_key)) a s"
      from False Inr "2.prems"
      have "process_compound_loop e rest foreign_key (snd ?c) = (r, s')"
        by simp
      from "2.IH"(2) [OF False Inr this]
      obtain nf where g: "grows (snd ?c) s' [] [] nf"
        and a: "list_all (\<lambda>f. f_compound f = Some (c_id foreign_key) \<and> f_metadatablock f = None) nf"
        by blast
      from grows_trans [OF grows_create_field g]
      have "grows s s' [] [] (fst ?c # nf)"
        by simp
      with a show ?thesis
        by (intro exI [of _ "fst ?c # nf"]) simp
    qed
  qed
qed


lemma under_mono:
  "under nb nc f \<Longrightarrow> set nb \<subseteq> set nb' \<Longrightarrow> set nc \<subseteq> set nc' \<Longrightarrow> under nb' nc' f"
  by (auto simp: under_def split: option.splits)

lemma list_all_under_mono:
  "list_all (under nb nc) nf \<Longrightarrow> set nb \<subseteq> set nb' \<Longrightarrow> set nc \<subseteq> set nc' \<Longrightarrow>
     list_all (under nb' nc') nf"
  by (auto simp: list_all_iff intro: under_mono)

lemma process_compound_grows:
  "process_compound e entry fk s = (r, s') \<Longrightarrow>
     \<exists>nf. grows s s' [] [] nf \<and> list_all (under [] [fk]) nf"
proof (cases entry)
  case (IObj flds)
  assume "process_compound e entry fk s = (r, s')"
  with IObj have "process_compound_loop e flds fk s = (r, s')"
    by simp
  from process_compound_loop_grows [OF this]
  obtain nf where "grows s s' [] [] nf"
    and "list_all (\<lambda>f. f_compound f = Some (c_id fk) \<and> f_metadatablock f = None) nf"
    by blast
  then show ?thesis
    by (intro exI [of _ nf]) (auto simp: list_all_iff under_def)
qed (auto simp: grows_refl split: if_splits intro: exI [of _ "[]"])

lemma process_entries_grows:
  "process_entries e field_name entries mb s = (r, s') \<Longrightarrow>
     \<exists>nc nf. grows s s' [] nc nf \<and>
       list_all (\<lambda>c. c_metadatablock c = mb_id mb \<and> c_name c = field_name) nc \<and>
       list_all (under [] nc) nf \<and>
       (r = Inr () \<longrightarrow> length nc = length entries)"
proof (induction e field_name entries mb s rule: process_entries.induct)
  case (1 e field_name foreign_key s)
  then show ?case
    by (auto simp: grows_refl intro!: exI [of _ "[]"])
next
  case (2 e field_name entry entries foreign_key s)
  let ?c = "create_compound e foreign_key field_name s"
  obtain r1 s1 where p: "process_compound e entry (fst ?c) (snd ?c) = (r1, s1)"
    by (cases "process_compound e entry (fst ?c) (snd ?c)") auto
  from process_compound_grows [OF p]
  obtain nf1 where g1: "grows (snd ?c) s1 [] [] nf1" and u1: "list_all (under [] [fst ?c]) nf1"
    by blast
  from grows_trans [OF grows_create_compound g1]
  have g: "grows s s1 [] [fst ?c] nf1"
    by simp
  show ?case
  proof (cases r1)
    case (Inl err)
    with p "2.prems" have "r = Inl err" "s' = s1"
      by (simp_all add: case_prod_unfold)
    with g u1 show ?thesis
      by (intro exI [of _ "[fst ?c]"] exI [of _ nf1]) simp
  next
    case (Inr u)
    with p "2.prems" have q: "process_entries e field_name entries foreign_key s1 = (r, s')"
      by (simp add: case_prod_unfold)
    from "2.IH" [OF refl prod.collapse p [unfolded Inr, symmetric] refl q]
    obtain nc nf where g2: "grows s1 s' [] nc nf"
      and c2: "list_all (\<lambda>c. c_metadatablock c = mb_id foreign_key \<and> c_name c = field_name) nc"
      and u2: "list_all (under [] nc) nf"
      and l2: "r = Inr () \<longrightarrow> length nc = length entries"
      by blast
    from grows_trans [OF g g2] have "grows s s' [] (fst ?c # nc) (nf1 @ nf)"
      by simp
    moreover have "list_all (under [] (fst ?c # nc)) (nf1 @ nf)"
      using list_all_under_mono [OF u1, of "[]" "fst ?c # nc"]
        list_all_under_mono [OF u2, of "[]" "fst ?c # nc"] by auto
    ultimately show ?thesis
      using c2 l2 by (intro exI [of _ "fst ?c # nc"] exI [of _ "nf1 @ nf"]) simp
  qed
qed


lemma kept_skip:
  "skipped n v \<Longrightarrow> kept_primitives ((n, fi, v) # rest) = kept_primitives rest"
  "skipped n v \<Longrightarrow> kept_compounds ((n, fi, v) # rest) = kept_compounds rest"
  by (simp_all add: kept_primitives_def kept_compounds_def)

lemma kept_primitive:
  "\<not> skipped n v \<Longrightarrow> typeClass fi \<noteq> ''compound'' \<Longrightarrow>
     kept_primitives ((n, fi, v) # rest) = n # kept_primitives rest"
  "\<not> skipped n v \<Longrightarrow> typeClass fi \<noteq> ''compound'' \<Longrightarrow>
     kept_compounds ((n, fi, v) # rest) = kept_compounds rest"
  by (simp_all add: kept_primitives_def kept_compounds_def)

lemma kept_compound:
  "\<not> skipped n v \<Longrightarrow> typeClass fi = ''compound'' \<Longrightarrow>
     kept_primitives ((n, fi, v) # rest) = kept_primitives rest"
  "\<not> skipped n v \<Longrightarrow> typeClass fi = ''compound'' \<Longrightarrow>
     kept_compounds ((n, fi, v) # rest) = replicate (length (entries_of v)) n @ kept_compounds rest"
  by (simp_all add: kept_primitives_def kept_compounds_def)

lemma process_metadatablock_skip:
  "skipped n v \<Longrightarrow>
     process_metadatablock e ((n, fi, v) # rest) mb s = process_metadatablock e rest mb s"
  by (auto simp: skipped_def)

lemma under_compound_not_direct:
  "list_all (under [] nc) nf \<Longrightarrow> filter (\<lambda>f. f_compound f = None) nf = []"
  by (induction nf) (auto simp: under_def split: option.splits)

lemma map_c_name_replicate:
  "list_all (\<lambda>c. c_metadatablock c = k \<and> c_name c = n) nc \<Longrightarrow>
     map c_name nc = replicate (length nc) n"
  by (induction nc) auto

lemma process_metadatablock_grows:
  "process_metadatablock e block mb s = (r, s') \<Longrightarrow>
     \<exists>nc nf. grows s s' [] nc nf \<and>
       list_all (\<lambda>c. c_metadatablock c = mb_id mb) nc \<and>
       list_all (under [mb] nc) nf \<and>
       (r = Inr () \<longrightarrow>
          map f_name (filter (\<lambda>f. f_compound f = None) nf) = kept_primitives block \<and>
          map c_name nc = kept_compounds block)"
proof (induction block arbitrary: s)
  case Nil
  then show ?case
    by (auto simp: grows_refl kept_primitives_def kept_compounds_def intro!: exI [of _ "[]"])
next
  case (Cons fld rest)
  obtain n fi v where fld: "fld = (n, fi, v)"
    by (cases fld) auto
  show ?case
  proof (cases "skipped n v")
    case True
    with Cons.prems fld have "process_metadatablock e rest mb s = (r, s')"
      by (simp only: process_metadatablock_skip)
    from Cons.IH [OF this] True fld show ?thesis
      by (simp only: kept_skip)
  next
    case False
    then have ns: "\<not> startswith_underscore n" "v \<noteq> Single INone" "v \<noteq> Many []"
      by (simp_all add: skipped_def)
    show ?thesis
    proof (cases "typeClass fi = ''compound''")
      case prim: False
      show ?thesis
      proof (cases "process_primitive (model_str e) n v fi None")
        case (Inl err)
        with Cons.prems fld ns prim have "r = Inl err" "s' = s"
          by simp_all
        then show ?thesis
          by (auto simp: grows_refl intro!: exI [of _ "[]"])
      next
        case (Inr a)
        let ?c = "create_field e (Some (mb_id mb)) None a s"
        from Cons.prems fld ns prim Inr
        have "process_metadatablock e rest mb (snd ?c) = (r, s')"
          by simp
        from Cons.IH [OF this]
        obtain nc nf where g: "grows (snd ?c) s' [] nc nf"
          and c: "list_all (\<lambda>c. c_metadatablock c = mb_id mb) nc"
          and u: "list_all (under [mb] nc) nf"
          and k: "r = Inr () \<longrightarrow>
              map f_name (filter (\<lambda>f. f_compound f = None) nf) = kept_primitives rest \<and>
              map c_name nc = kept_compounds rest"
          by blast
        from grows_trans [OF grows_create_field g]
        have g': "grows s s' [] nc (fst ?c # nf)"
          by simp
        have u': "list_all (under [mb] nc) (fst ?c # nf)"
          using u by (simp add: under_def)
        from k process_primitive_name [OF Inr]
        have k': "r = Inr () \<longrightarrow>
              map f_name (filter (\<lambda>f. f_compound f = None) (fst ?c # nf)) =
                kept_primitives (fld # rest) \<and>
              map c_name nc = kept_compounds (fld # rest)"
          using fld False prim by (simp add: kept_primitive)
        from g' c u' k' show ?thesis
          by blast
      qed
    next
      case comp: True
      let ?es = "case v of Many entries \<Rightarrow> entries | Single x \<Rightarrow> [x]"
      have es: "?es = entries_of v"
        by (simp add: entries_of_def)
      obtain r1 s1 where p: "process_entries e n ?es mb s = (r1, s1)"
        by (cases "process_entries e n ?es mb s") auto
      from process_entries_grows [OF p]
      obtain nc1 nf1 where g1: "grows s s1 [] nc1 nf1"
        and c1: "list_all (\<lambda>c. c_metadatablock c = mb_id mb \<and> c_name c = n) nc1"
        and u1: "list_all (under [] nc1) nf1"
        and l1: "r1 = Inr () \<longrightarrow> length nc1 = length ?es"
        by blast
      have c1': "list_all (\<lambda>c. c_metadatablock c = mb_id mb) nc1"
        using c1 by (auto simp: list_all_iff)
      show ?thesis
      proof (cases r1)
        case (Inl err)
        with Cons.prems fld ns comp p have "r = Inl err" "s' = s1"
          by simp_all
        with g1 c1' list_all_under_mono [OF u1, of "[mb]" nc1] show ?thesis
          by (intro exI [of _ nc1] exI [of _ nf1]) simp
      next
        case (Inr u)
        with Cons.prems fld ns comp p
        have "process_metadatablock e rest mb s1 = (r, s')"
          by simp
        from Cons.IH [OF this]
        obtain nc nf where g: "grows s1 s' [] nc nf"
          and c: "list_all (\<lambda>c. c_metadatablock c = mb_id mb) nc"
          and u: "list_all (under [mb] nc) nf"
          and k: "r = Inr () \<longrightarrow>
              map f_name (filter (\<lambda>f. f_compound f = None) nf) = kept_primitives rest \<and>
              map c_name nc = kept_compounds rest"
          by blast
        from grows_trans [OF g1 g] have g': "grows s s' [] (nc1 @ nc) (nf1 @ nf)"
          by simp
        have c': "list_all (\<lambda>c. c_metadatablock c = mb_id mb) (nc1 @ nc)"
          using c1' c by simp
        have u': "list_all (under [mb] (nc1 @ nc)) (nf1 @ nf)"
          using list_all_under_mono [OF u1, of "[mb]" "nc1 @ nc"]
            list_all_under_mono [OF u, of "[mb]" "nc1 @ nc"] by auto
        from Inr l1 have "length nc1 = length (entries_of v)"
          by (simp add: es)
        with map_c_name_replicate [OF c1]
        have m: "map c_name nc1 = replicate (length (entries_of v)) n"
          by simp
        have k': "r = Inr () \<longrightarrow>
              map f_name (filter (\<lambda>f. f_compound f = None) (nf1 @ nf)) =
                kept_primitives (fld # rest) \<and>
              map c_name (nc1 @ nc) = kept_compounds (fld # rest)"
          using k m under_compound_not_direct [OF u1] fld False comp
          by (simp add: kept_compound)
        from g' c' u' k' show ?thesis
          by blast
      qed
    qed
  qed
qed


lemma surviving_Cons:
  "surviving ((bn, block) # rest) =
     (if is_empty (IObj block) = Inr False then bn # surviving rest else surviving rest)"
  by (simp add: surviving_def)

lemma fetch_dataset_loop_grows:
  "fetch_dataset_loop e blocks rvw s = (r, s') \<Longrightarrow>
     \<exists>nb nc nf. grows s s' nb nc nf \<and>
       list_all (\<lambda>b. mb_review b = r_id rvw) nb \<and>
       list_all (\<lambda>c. c_metadatablock c \<in> set (map mb_id nb)) nc \<and>
       list_all (under nb nc) nf \<and>
       (\<exists>later. map mb_name nb @ later = surviving blocks) \<and>
       (r = Inr () \<longrightarrow> map mb_name nb = surviving blocks)"
proof (induction blocks arbitrary: s)
  case Nil
  then show ?case
    by (auto simp: grows_refl surviving_def intro!: exI [of _ "[]"])
next
  case (Cons blk rest)
  obtain bn block where blk: "blk = (bn, block)"
    by (cases blk) auto
  show ?case
  proof (cases "is_empty (IObj block)")
    case (Inl err)
    with Cons.prems blk have "r = Inl err" "s' = s"
      by (simp_all del: is_empty.simps)
    then show ?thesis
      by (intro exI [of _ "[]"]) (simp add: grows_refl)
  next
    case (Inr b)
    show ?thesis
    proof (cases b)
      case True
      with Inr Cons.prems blk have "fetch_dataset_loop e rest rvw s = (r, s')"
        by (simp del: is_empty.simps)
      from Cons.IH [OF this] Inr True blk show ?thesis
        by (simp only: surviving_Cons) simp
    next
      case False
      let ?m = "create_metadatablock e rvw bn s"
      obtain r1 s1 where p: "process_metadatablock e block (fst ?m) (snd ?m) = (r1, s1)"
        by (cases "process_metadatablock e block (fst ?m) (snd ?m)") auto
      from process_metadatablock_grows [OF p]
      obtain nc1 nf1 where g1: "grows (snd ?m) s1 [] nc1 nf1"
        and c1: "list_all (\<lambda>c. c_metadatablock c = mb_id (fst ?m)) nc1"
        and u1: "list_all (under [fst ?m] nc1) nf1"
        by blast
      from grows_trans [OF grows_create_metadatablock g1]
      have g: "grows s s1 [fst ?m] nc1 nf1"
        by simp
      have sv: "surviving (blk # rest) = bn # surviving rest"
        using Inr False blk by (simp only: surviving_Cons) simp
      show ?thesis
      proof (cases r1)
        case (Inl err)
        with Cons.prems blk Inr False p have "r = Inl err" "s' = s1"
          by (simp_all del: is_empty.simps add: case_prod_unfold)
        moreover have "list_all (\<lambda>c. c_metadatablock c \<in> set (map mb_id [fst ?m])) nc1"
          using c1 by (auto simp: list_all_iff)
        ultimately show ?thesis
          using g u1 sv
          by (intro exI [of _ "[fst ?m]"] exI [of _ nc1] exI [of _ nf1]) simp
      next
        case (Inr u)
        with Cons.prems blk \<open>is_empty (IObj block) = Inr b\<close> False p
        have "fetch_dataset_loop e rest rvw s1 = (r, s')"
          by (simp del: is_empty.simps add: case_prod_unfold)
        from Cons.IH [OF this]
        obtain nb nc nf where g2: "grows s1 s' nb nc nf"
          and b2: "list_all (\<lambda>b. mb_review b = r_id rvw) nb"
          and c2: "list_all (\<lambda>c. c_metadatablock c \<in> set (map mb_id nb)) nc"
          and u2: "list_all (under nb nc) nf"
          and m2: "\<exists>later. map mb_name nb @ later = surviving rest"
          and k2: "r = Inr () \<longrightarrow> map mb_name nb = surviving rest"
          by blast
        from grows_trans [OF g g2]
        have g': "grows s s' (fst ?m # nb) (nc1 @ nc) (nf1 @ nf)"
          by simp
        have b': "list_all (\<lambda>b. mb_review b = r_id rvw) (fst ?m # nb)"
          using b2 by simp
        have c': "list_all (\<lambda>c. c_metadatablock c \<in> set (map mb_id (fst ?m # nb))) (nc1 @ nc)"
          using c1 c2 by (auto simp: list_all_iff)
        have u': "list_all (under (fst ?m # nb) (nc1 @ nc)) (nf1 @ nf)"
          using list_all_under_mono [OF u1, of "fst ?m # nb" "nc1 @ nc"]
            list_all_under_mono [OF u2, of "fst ?m # nb" "nc1 @ nc"] by auto
        have m': "\<exists>later. map mb_name (fst ?m # nb) @ later = surviving (blk # rest)"
          using m2 sv by auto
        have k': "r = Inr () \<longrightarrow> map mb_name (fst ?m # nb) = surviving (blk # rest)"
          using k2 sv by simp
        from g' b' c' u' m' k' show ?thesis
          by blast
      qed
    qed
  qed
qed

section \<open>The tree flattener: skipped and persisted fields\<close>

lemma mixed_run:
  "process_metadatablock demo_env mixed demo_block empty_store = (Inr (), mixed_flat)"
  by (simp add: mixed_def mixed_flat_def demo_env_def demo_block_def empty_store_def author_def
      prim1_def primN_def compN_def startswith_underscore_def create_field_def
      create_compound_def draw_uuid_def Let_def)

text \<open>
  When the flattener has run through a block without an exception, the Field rows it
  saved directly under the block are, in order, one for each primitive field that is not
  skipped, and the Compound rows are one per entry of each compound field that is not
  skipped; every new row hangs under the block. A field is skipped, with no row saved for
  it, when its name starts with an underscore or its value is \<open>None\<close> or the empty list.
  A block of the declared shape with a non-null leaf passes the emptiness filter, so its
  Metadatablock row is saved and the flattener runs on it.
\<close>

lemma process_metadatablock_rows:
  "process_metadatablock e block mb s = (Inr (), s') \<Longrightarrow>
     (\<exists>nc nf. grows s s' [] nc nf \<and>
        map f_name (filter (\<lambda>f. f_compound f = None) nf) = kept_primitives block \<and>
        map c_name nc = kept_compounds block \<and>
        list_all (\<lambda>c. c_metadatablock c = mb_id mb) nc \<and>
        list_all (under [mb] nc) nf) \<and>
     (skipped field_name val \<longrightarrow>
        process_metadatablock e ((field_name, field_info, val) # rest) mb s0 =
        process_metadatablock e rest mb s0) \<and>
     (wt_node block \<and> \<not> list_all (\<lambda>l. l = INone) (leaves_node block) \<longrightarrow>
        fetch_dataset_loop e ((block_name, block) # others) rvw s0 =
          (case process_metadatablock e block (fst (create_metadatablock e rvw block_name s0))
                  (snd (create_metadatablock e rvw block_name s0)) of
             (Inl err, s2) \<Rightarrow> (Inl err, s2)
           | (Inr u, s2) \<Rightarrow> fetch_dataset_loop e others rvw s2))"
proof -
  assume p: "process_metadatablock e block mb s = (Inr (), s')"
  from process_metadatablock_grows [OF p]
  have a: "\<exists>nc nf. grows s s' [] nc nf \<and>
        map f_name (filter (\<lambda>f. f_compound f = None) nf) = kept_primitives block \<and>
        map c_name nc = kept_compounds block \<and>
        list_all (\<lambda>c. c_metadatablock c = mb_id mb) nc \<and>
        list_all (under [mb] nc) nf"
    by blast
  have b: "skipped field_name val \<longrightarrow>
        process_metadatablock e ((field_name, field_info, val) # rest) mb s0 =
        process_metadatablock e rest mb s0"
    using process_metadatablock_skip by blast
  have c: "wt_node block \<and> \<not> list_all (\<lambda>l. l = INone) (leaves_node block) \<longrightarrow>
        fetch_dataset_loop e ((block_name, block) # others) rvw s0 =
          (case process_metadatablock e block (fst (create_metadatablock e rvw block_name s0))
                  (snd (create_metadatablock e rvw block_name s0)) of
             (Inl err, s2) \<Rightarrow> (Inl err, s2)
           | (Inr u, s2) \<Rightarrow> fetch_dataset_loop e others rvw s2)"
  proof
    assume w: "wt_node block \<and> \<not> list_all (\<lambda>l. l = INone) (leaves_node block)"
    then have "is_empty (IObj block) = Inr False"
      using is_empty_refines(1) [of "IObj block"] spec_is_empty_leaves(1) [of "IObj block"]
      by simp
    then show "fetch_dataset_loop e ((block_name, block) # others) rvw s0 =
          (case process_metadatablock e block (fst (create_metadatablock e rvw block_name s0))
                  (snd (create_metadatablock e rvw block_name s0)) of
             (Inl err, s2) \<Rightarrow> (Inl err, s2)
           | (Inr u, s2) \<Rightarrow> fetch_dataset_loop e others rvw s2)"
      by (simp del: is_empty.simps add: case_prod_unfold Let_def)
  qed
  from a b c show ?thesis
    by blast
qed

lemma process_metadatablock_rows_example:
  "process_metadatablock demo_env mixed demo_block empty_store = (Inr (), mixed_flat) \<and>
   map f_name (filter (\<lambda>f. f_compound f = None) (field_rows mixed_flat)) = [''title''] \<and>
   map c_name (compound_rows mixed_flat) = [''author''] \<and>
   skipped ''subtitle'' (Single INone) \<and>
   process_metadatablock demo_env ((''subtitle'', prim1, Single INone) # mixed) demo_block empty_store =
     (Inr (), mixed_flat) \<and>
   wt_node mixed \<and>
   \<not> list_all (\<lambda>l. l = INone) (leaves_node mixed) \<and>
   map mb_name (metadatablock_rows (snd (fetch_dataset_loop demo_env [(''citation'', mixed)]
      (demo_review ''r1'' ''doi:10.1/abc'') empty_store))) = [''citation'']"
proof -
  note t = process_metadatablock_rows [OF mixed_run, where field_name = "''subtitle''"
      and val = "Single INone" and field_info = prim1 and rest = mixed and ?s0.0 = empty_store
      and block_name = "''citation''" and others = "[]"
      and rvw = "demo_review ''r1'' ''doi:10.1/abc''"]
  have k: "kept_primitives mixed = [''title'']" "kept_compounds mixed = [''author'']"
    by (simp_all add: kept_primitives_def kept_compounds_def skipped_def entries_of_def mixed_def
        startswith_underscore_def prim1_def primN_def compN_def)
  from t [THEN conjunct1] k
  have a: "map f_name (filter (\<lambda>f. f_compound f = None) (field_rows mixed_flat)) = [''title'']"
    and b: "map c_name (compound_rows mixed_flat) = [''author'']"
    by (auto simp: grows_def empty_store_def)
  have sk: "skipped ''subtitle'' (Single INone)"
    by (simp add: skipped_def)
  from t [THEN conjunct2, THEN conjunct1] sk mixed_run
  have c: "process_metadatablock demo_env ((''subtitle'', prim1, Single INone) # mixed)
      demo_block empty_store = (Inr (), mixed_flat)"
    by simp
  have w: "wt_node mixed"
    by (simp add: mixed_def author_def prim1_def primN_def compN_def)
  have l: "\<not> list_all (\<lambda>l. l = INone) (leaves_node mixed)"
    by (simp add: mixed_def author_def)
  from t [THEN conjunct2, THEN conjunct2] w l
  have "fetch_dataset_loop demo_env [(''citation'', mixed)] (demo_review ''r1'' ''doi:10.1/abc'')
      empty_store =
      (case process_metadatablock demo_env mixed
              (fst (create_metadatablock demo_env (demo_review ''r1'' ''doi:10.1/abc'') ''citation'' empty_store))
              (snd (create_metadatablock demo_env (demo_review ''r1'' ''doi:10.1/abc'') ''citation'' empty_store)) of
         (Inl err, s2) \<Rightarrow> (Inl err, s2)
       | (Inr u, s2) \<Rightarrow> fetch_dataset_loop demo_env [] (demo_review ''r1'' ''doi:10.1/abc'') s2)"
    by blast
  then have d: "map mb_name (metadatablock_rows (snd (fetch_dataset_loop demo_env [(''citation'', mixed)]
      (demo_review ''r1'' ''doi:10.1/abc'') empty_store))) = [''citation'']"
    by (simp add: mixed_def demo_env_def empty_store_def author_def demo_review_def
      prim1_def primN_def compN_def startswith_underscore_def create_field_def
      create_compound_def create_metadatablock_def draw_uuid_def Let_def)
  from mixed_run a b sk c w l d show ?thesis
    by blast
qed

text \<open>
  C8. Not every field of a surviving block that is neither skipped nor null is persisted:
  \<open>", ".join(value)\<close> raises \<open>TypeError\<close> on a list that holds anything but strings. The
  block \<open>astro\<close> has the declared shape and passes the emptiness filter, and none of its
  two fields is skipped; the flattener stops at the list of floats with no Field row
  saved, so the non-null \<open>resolution_spatial\<close> is never persisted, and the request ends
  in the exception with the Review row and the Metadatablock row left in the store.
\<close>

theorem process_metadatablock_float_list:
  "wt_node astro \<and>
   is_empty (IObj astro) = Inr False \<and>
   kept_primitives astro = [''coverage_spectral_central_wavelength'', ''resolution_spatial''] \<and>
   process_metadatablock demo_env astro demo_block empty_store = (Inl TypeError, empty_store) \<and>
   fetch_dataset astro_env
     \<lparr>q_site_url = Some ''https://demo.dataverse.org'', q_doi = Some ''doi:10.1/abc'',
      q_api_token = None\<rparr> empty_store =
     (Inl TypeError,
      empty_store\<lparr>uuids_drawn := 2,
        review_rows :=
          [\<lparr>r_id = ''u'', r_reviewer = None, r_doi = ''doi:10.1/abc'',
            r_site_url = Some ''https://demo.dataverse.org'', r_revision = 1,
            r_accepted = False, r_date = 42\<rparr>],
        metadatablock_rows :=
          [\<lparr>mb_id = ''uu'', mb_review = ''u'', mb_name = ''astrophysics'', mb_description = []\<rparr>]\<rparr>)"
  by (simp add: astro_def astro_env_def demo_env_def demo_block_def empty_store_def
      prim1_def primN_def kept_primitives_def skipped_def startswith_underscore_def
      fetch_dataset_def create_review_def create_metadatablock_def draw_uuid_def py_join_def Let_def)

section \<open>The fetch endpoint: pruning of empty blocks\<close>

lemma two_blocks_run:
  "fst (fetch_dataset_loop demo_env two_blocks (demo_review ''r1'' ''doi:10.1/abc'') empty_store) = Inr ()"
  by (simp add: two_blocks_def citation_def hollow_def demo_env_def empty_store_def author_def
      demo_review_def prim1_def primN_def comp1_def compN_def startswith_underscore_def
      create_field_def create_compound_def create_metadatablock_def draw_uuid_def py_join_def Let_def)

text \<open>
  C6. Whatever the outcome of the loop over a dataset's blocks, a block of the declared
  shape with no non-null leaf (every field null, every instance of every repeatable
  compound empty) is found empty and no Metadatablock row carries its name; every new
  Compound row hangs under a new Metadatablock row and every new Field row under a new
  Metadatablock or Compound row, so none hangs under the pruned block. When the loop
  completes, the new Metadatablock rows are exactly those of the blocks found non-empty.
\<close>

theorem empty_block_not_persisted:
  "fetch_dataset_loop e blocks rvw s = (r, s') \<Longrightarrow>
   distinct (map fst blocks) \<Longrightarrow>
   (block_name, block) \<in> set blocks \<Longrightarrow>
   wt_node block \<Longrightarrow>
   list_all (\<lambda>l. l = INone) (leaves_node block) \<Longrightarrow>
     is_empty (IObj block) = Inr True \<and>
     (\<exists>nb nc nf. grows s s' nb nc nf \<and>
        block_name \<notin> set (map mb_name nb) \<and>
        list_all (\<lambda>c. c_metadatablock c \<in> set (map mb_id nb)) nc \<and>
        list_all (under nb nc) nf \<and>
        (r = Inr () \<longrightarrow> map mb_name nb = surviving blocks))"
proof -
  assume l: "fetch_dataset_loop e blocks rvw s = (r, s')"
    and d: "distinct (map fst blocks)"
    and m: "(block_name, block) \<in> set blocks"
    and w: "wt_node block"
    and n: "list_all (\<lambda>l. l = INone) (leaves_node block)"
  have em: "is_empty (IObj block) = Inr True"
    using is_empty_refines(1) [of "IObj block"] spec_is_empty_leaves(1) [of "IObj block"] w n
    by simp
  from fetch_dataset_loop_grows [OF l]
  obtain nb nc nf tl where g: "grows s s' nb nc nf"
    and c: "list_all (\<lambda>c. c_metadatablock c \<in> set (map mb_id nb)) nc"
    and u: "list_all (under nb nc) nf"
    and p: "map mb_name nb @ tl = surviving blocks"
    and k: "r = Inr () \<longrightarrow> map mb_name nb = surviving blocks"
    by blast
  have "block_name \<notin> set (surviving blocks)"
  proof
    assume "block_name \<in> set (surviving blocks)"
    then obtain block' where m': "(block_name, block') \<in> set blocks"
      and ne: "is_empty (IObj block') = Inr False"
      by (auto simp: surviving_def)
    from d m m' have "block' = block"
      by (meson eq_key_imp_eq_value)
    with ne em show False
      by simp
  qed
  moreover from p have "set (map mb_name nb) \<subseteq> set (surviving blocks)"
    by (metis set_append sup_ge1)
  ultimately have "block_name \<notin> set (map mb_name nb)"
    by blast
  with em g c u k show ?thesis
    by blast
qed

theorem empty_block_not_persisted_witness:
  "distinct (map fst two_blocks) \<and>
   (''geospatial'', hollow) \<in> set two_blocks \<and>
   wt_node hollow \<and>
   list_all (\<lambda>l. l = INone) (leaves_node hollow) \<and>
   is_empty (IObj hollow) = Inr True \<and>
   ''geospatial'' \<notin> set (map mb_name (metadatablock_rows
      (snd (fetch_dataset_loop demo_env two_blocks (demo_review ''r1'' ''doi:10.1/abc'') empty_store)))) \<and>
   map mb_name (metadatablock_rows
      (snd (fetch_dataset_loop demo_env two_blocks (demo_review ''r1'' ''doi:10.1/abc'') empty_store))) =
     [''citation'']"
proof -
  let ?x = "fetch_dataset_loop demo_env two_blocks (demo_review ''r1'' ''doi:10.1/abc'') empty_store"
  have r: "?x = (Inr (), snd ?x)"
    using two_blocks_run by (metis prod.collapse)
  have d: "distinct (map fst two_blocks)"
    by (simp add: two_blocks_def)
  have m: "(''geospatial'', hollow) \<in> set two_blocks"
    by (simp add: two_blocks_def)
  have w: "wt_node hollow"
    by (simp add: hollow_def prim1_def primN_def comp1_def compN_def)
  have l: "list_all (\<lambda>l. l = INone) (leaves_node hollow)"
    by (simp add: hollow_def)
  have sv: "surviving two_blocks = [''citation'']"
    by (simp add: surviving_def two_blocks_def citation_def hollow_def author_def
        prim1_def primN_def comp1_def compN_def)
  from empty_block_not_persisted [OF r d m w l]
  obtain nb nc nf where e: "is_empty (IObj hollow) = Inr True"
    and g: "grows empty_store (snd ?x) nb nc nf"
    and n: "''geospatial'' \<notin> set (map mb_name nb)"
    and k: "map mb_name nb = surviving two_blocks"
    by blast
  from g have "metadatablock_rows (snd ?x) = nb"
    by (simp add: grows_def empty_store_def)
  with n k sv d m w l e show ?thesis
    by simp
qed

section \<open>The fetch endpoint: a new DOI\<close>

text \<open>
  For a complete request whose DOI is in no Review row, \<open>fetch_dataset\<close> loads the
  dataset, saves the Review row and runs the loop over the blocks.
\<close>

lemma fetch_dataset_new_doi:
  "q_site_url req = Some site_url \<Longrightarrow> q_doi req = Some doi \<Longrightarrow>
   Dataverse e (Some site_url) (q_api_token req) = Inr u \<Longrightarrow>
   filter (\<lambda>r. r_doi r = doi) (review_rows s) = [] \<Longrightarrow>
   load_dataset e (Some site_url) (q_api_token req) doi = Inr blocks \<Longrightarrow>
     fetch_dataset e req s =
       (case fetch_dataset_loop e blocks (fst (create_review e doi (Some site_url) 1 (now e) s))
               (snd (create_review e doi (Some site_url) 1 (now e) s)) of
          (Inl err, s2) \<Rightarrow> (Inl err, s2)
        | (Inr v, s2) \<Rightarrow>
            (Inr \<lparr>status = 200,
                  data = ReviewData (serialize_review s2
                    (fst (create_review e doi (Some site_url) 1 (now e) s)))\<rparr>, s2))"
  by (simp add: fetch_dataset_def case_prod_unfold Let_def del: One_nat_def)

section \<open>The fetch endpoint: a DOI already in the store\<close>

lemma refetch_store_unchanged:
  "q_doi req = Some doi \<Longrightarrow> filter (\<lambda>r. r_doi r = doi) (review_rows s) \<noteq> [] \<Longrightarrow>
     snd (fetch_dataset e req s) = s"
  by (auto simp: fetch_dataset_def split: sum.splits option.splits list.splits)

text \<open>
  With a Review row of the requested DOI in the store, \<open>fetch_dataset\<close> leaves the store
  unchanged, whatever it returns. When the request carries \<open>site_url\<close>, the Dataverse
  client is constructed without error and exactly one Review row has that DOI, the answer
  is 200 with that row's representation.
\<close>

lemma refetch_single_row:
  "q_doi req = Some doi \<Longrightarrow>
   filter (\<lambda>r. r_doi r = doi) (review_rows s) \<noteq> [] \<Longrightarrow>
     snd (fetch_dataset e req s) = s \<and>
     (q_site_url req = Some site_url \<and>
      Dataverse e (Some site_url) (q_api_token req) = Inr u \<and>
      filter (\<lambda>r. r_doi r = doi) (review_rows s) = [rvw] \<longrightarrow>
        fetch_dataset e req s =
          (Inr \<lparr>status = 200, data = ReviewData (serialize_review s rvw)\<rparr>, s) \<and>
        rvw \<in> set (review_rows s) \<and> r_doi rvw = doi)"
proof -
  assume d: "q_doi req = Some doi"
    and ne: "filter (\<lambda>r. r_doi r = doi) (review_rows s) \<noteq> []"
  have a: "snd (fetch_dataset e req s) = s"
    using refetch_store_unchanged [OF d ne] .
  have b: "q_site_url req = Some site_url \<and>
      Dataverse e (Some site_url) (q_api_token req) = Inr u \<and>
      filter (\<lambda>r. r_doi r = doi) (review_rows s) = [rvw] \<longrightarrow>
        fetch_dataset e req s =
          (Inr \<lparr>status = 200, data = ReviewData (serialize_review s rvw)\<rparr>, s) \<and>
        rvw \<in> set (review_rows s) \<and> r_doi rvw = doi"
  proof
    assume h: "q_site_url req = Some site_url \<and>
      Dataverse e (Some site_url) (q_api_token req) = Inr u \<and>
      filter (\<lambda>r. r_doi r = doi) (review_rows s) = [rvw]"
    then have "rvw \<in> set (filter (\<lambda>r. r_doi r = doi) (review_rows s))"
      by simp
    then have "rvw \<in> set (review_rows s) \<and> r_doi rvw = doi"
      by simp
    moreover from h d have "fetch_dataset e req s =
          (Inr \<lparr>status = 200, data = ReviewData (serialize_review s rvw)\<rparr>, s)"
      by (simp add: fetch_dataset_def)
    ultimately show "fetch_dataset e req s =
          (Inr \<lparr>status = 200, data = ReviewData (serialize_review s rvw)\<rparr>, s) \<and>
        rvw \<in> set (review_rows s) \<and> r_doi rvw = doi"
      by blast
  qed
  from a b show ?thesis
    by blast
qed

lemma refetch_single_row_example:
  "filter (\<lambda>r. r_doi r = ''doi:10.1/abc'') (review_rows counted_store) =
     [demo_review ''r1'' ''doi:10.1/abc''] \<and>
   Dataverse demo_env (Some ''https://demo.dataverse.org'') None = Inr () \<and>
   fetch_dataset demo_env
     \<lparr>q_site_url = Some ''https://demo.dataverse.org'', q_doi = Some ''doi:10.1/abc'',
      q_api_token = None\<rparr> counted_store =
     (Inr \<lparr>status = 200,
           data = ReviewData (serialize_review counted_store (demo_review ''r1'' ''doi:10.1/abc''))\<rparr>,
      counted_store)"
proof -
  let ?req = "\<lparr>q_site_url = Some ''https://demo.dataverse.org'', q_doi = Some ''doi:10.1/abc'',
      q_api_token = None\<rparr>"
  have a: "q_doi ?req = Some ''doi:10.1/abc''"
    by simp
  have c: "filter (\<lambda>r. r_doi r = ''doi:10.1/abc'') (review_rows counted_store) =
     [demo_review ''r1'' ''doi:10.1/abc'']"
    by (simp add: counted_store_def demo_review_def)
  then have ne: "filter (\<lambda>r. r_doi r = ''doi:10.1/abc'') (review_rows counted_store) \<noteq> []"
    by simp
  have b: "Dataverse demo_env (Some ''https://demo.dataverse.org'') None = Inr ()"
    by (simp add: demo_env_def)
  note t = refetch_single_row [OF a ne, where site_url = "''https://demo.dataverse.org''"
      and e = demo_env and u = "()" and rvw = "demo_review ''r1'' ''doi:10.1/abc''",
      THEN conjunct2]
  from t b c show ?thesis
    by simp
qed

text \<open>
  C1. A DOI for which Review rows exist is not always answered with the existing
  Review: \<open>fetch_dataset\<close> asks whether a row with the DOI \<open>exists()\<close> and then fetches it
  with \<open>get(doi=doi)\<close>, which raises \<open>MultipleObjectsReturned\<close> when two rows carry the
  DOI. The request then ends in the exception, with the store as it was.
\<close>

theorem refetch_twin_rows:
  "map r_doi (review_rows twin_store) = [''doi:10.1/abc'', ''doi:10.1/abc''] \<and>
   Dataverse demo_env (Some ''https://demo.dataverse.org'') None = Inr () \<and>
   fetch_dataset demo_env
     \<lparr>q_site_url = Some ''https://demo.dataverse.org'', q_doi = Some ''doi:10.1/abc'',
      q_api_token = None\<rparr> twin_store =
     (Inl MultipleObjectsReturned, twin_store)"
  by (simp add: fetch_dataset_def world_defs)

section \<open>The fetch endpoint: request parameters\<close>

lemma fetch_dataset_store_kept:
  "q_site_url req = None \<or> q_doi req = None \<Longrightarrow> snd (fetch_dataset e req s) = s"
  by (auto simp: fetch_dataset_def split: sum.splits option.splits)

lemma fetch_dataset_missing_params:
  "Dataverse e (q_site_url req) (q_api_token req) = Inr u \<Longrightarrow>
   q_site_url req = None \<or> q_doi req = None \<Longrightarrow>
     fetch_dataset e req s =
       (Inr \<lparr>status = 400,
             data = MessageBody ''Missing either 'site_url' or 'doi' to fetch the dataset.''\<rparr>, s)"
  by (auto simp: fetch_dataset_def split: option.splits)

text \<open>
  C5. \<open>fetch_dataset\<close> constructs the Dataverse client from the query parameters before
  it checks them. With a client that rejects a missing \<open>site_url\<close>, a request without
  \<open>site_url\<close> ends in the client's exception, not in a 400 response; the store is left
  as it was.
\<close>

theorem fetch_dataset_missing_site_url:
  "fetch_dataset demo_env \<lparr>q_site_url = None, q_doi = Some ''doi:10.1/abc'', q_api_token = None\<rparr> s =
     (Inl (Raised ''ValidationError''), s)"
  by (simp add: fetch_dataset_def demo_env_def)

section \<open>The open-fields endpoint\<close>

lemma all_compound_fields_eq:
  "concat (map ce_childFields (retrieve_compounds lower flds)) =
     concat (map (\<lambda>fld. map (\<lambda>c. snake lower (cf_displayName c)) (children fld)) flds)"
  by (induction flds) (auto simp: retrieve_compounds_def children_def)

text \<open>
  What the report of a block holds for every payload: the request is logged once; the
  compounds are exactly the fields declaring child fields, in the payload's order, each
  with its normalised child display names; every listed primitive is the normalised
  display name of a field without child fields; and no listed primitive is a child name
  of a listed compound.
\<close>

lemma open_fields_compounds:
  "get url = Inr flds \<Longrightarrow>
     \<exists>ps. fetch_open_metadatablock_fields lower get mb url log =
       (Inr \<lparr>of_name = mb_name mb, of_primitives = ps,
             of_compounds =
               map (\<lambda>fld. \<lparr>ce_name = snake lower (sf_displayName fld),
                            ce_childFields = map (\<lambda>c. snake lower (cf_displayName c)) (children fld)\<rparr>)
                 (filter (\<lambda>fld. sf_childFields fld \<noteq> None) flds)\<rparr>,
        log @ [url])"
  by (simp add: fetch_open_metadatablock_fields_def retrieve_compounds_def Let_def)

lemma open_fields_primitives_childless:
  "fetch_open_metadatablock_fields lower get mb url log = (Inr r, log') \<Longrightarrow> get url = Inr flds \<Longrightarrow>
   p \<in> set (of_primitives r) \<Longrightarrow>
     \<exists>fld \<in> set flds. sf_childFields fld = None \<and> p = snake lower (sf_displayName fld)"
  by (auto simp: fetch_open_metadatablock_fields_def retrieve_primitives_def Let_def)

lemma open_fields_dedup:
  "fetch_open_metadatablock_fields lower get mb url log = (Inr r, log') \<Longrightarrow>
   p \<in> set (of_primitives r) \<Longrightarrow> c \<in> set (of_compounds r) \<Longrightarrow> p \<notin> set (ce_childFields c)"
  by (auto simp: fetch_open_metadatablock_fields_def Let_def split: sum.splits)

lemmas schema_defs = schema_a_def schema_b_def schema_c_def schema_title_def schema_author_def
  schema_author_name_def schema_alternative_title_def schema_note_def schema_renamed_def

lemmas open_fields_defs = fetch_open_metadatablock_fields_def retrieve_primitives_def
  retrieve_compounds_def get_child_field_names_def children_def snake_def ascii_lower_def

text \<open>
  The specification's example, with and without \<open>C\<close> as a field of its own, and a
  citation-like schema whose names carry spaces.
\<close>

lemma open_fields_examples:
  "fetch_open_metadatablock_fields ascii_lower (\<lambda>url. Inr [schema_a, schema_b]) demo_block
      ''https://demo.dataverse.org/api/metadatablocks/citation'' [] =
     (Inr \<lparr>of_name = ''citation'', of_primitives = [''a''],
           of_compounds = [\<lparr>ce_name = ''b'', ce_childFields = [''c'', ''d'']\<rparr>]\<rparr>,
      [''https://demo.dataverse.org/api/metadatablocks/citation''])"
  "fetch_open_metadatablock_fields ascii_lower (\<lambda>url. Inr [schema_a, schema_b, schema_c]) demo_block
      ''https://demo.dataverse.org/api/metadatablocks/citation'' [] =
     (Inr \<lparr>of_name = ''citation'', of_primitives = [''a''],
           of_compounds = [\<lparr>ce_name = ''b'', ce_childFields = [''c'', ''d'']\<rparr>]\<rparr>,
      [''https://demo.dataverse.org/api/metadatablocks/citation''])"
  "fetch_open_metadatablock_fields ascii_lower
      (\<lambda>url. Inr [schema_title, schema_author, schema_author_name, schema_alternative_title])
      demo_block ''https://demo.dataverse.org/api/metadatablocks/citation'' [] =
     (Inr \<lparr>of_name = ''citation'', of_primitives = [''title'', ''alternative_title''],
           of_compounds = [\<lparr>ce_name = ''author'',
                            ce_childFields = [''author_name'', ''author_affiliation'']\<rparr>]\<rparr>,
      [''https://demo.dataverse.org/api/metadatablocks/citation''])"
  by (simp_all add: open_fields_defs schema_defs demo_block_def)

text \<open>
  C3. The primitives of the report are not exactly the fields without child fields that
  are no other field's child: \<open>_retrieve_primitives\<close> looks a field's display name up among
  the children's \<open>name\<close> values. On \<open>schema_note\<close> the field \<open>remark\<close>, which has no
  children and is no field's child, is left out because its display name is the \<open>name\<close>
  of a child of \<open>software\<close>; on \<open>schema_renamed\<close> the field \<open>authorName\<close>, the child of
  \<open>author\<close>, is listed as \<open>author_name\<close>.
\<close>

theorem open_fields_display_name_against_names:
  "fetch_open_metadatablock_fields ascii_lower (\<lambda>url. Inr schema_note) demo_block
      ''https://demo.dataverse.org/api/metadatablocks/citation'' [] =
     (Inr \<lparr>of_name = ''citation'', of_primitives = [],
           of_compounds = [\<lparr>ce_name = ''software'', ce_childFields = [''software_version'']\<rparr>]\<rparr>,
      [''https://demo.dataverse.org/api/metadatablocks/citation'']) \<and>
   fetch_open_metadatablock_fields ascii_lower (\<lambda>url. Inr schema_renamed) demo_block
      ''https://demo.dataverse.org/api/metadatablocks/citation'' [] =
     (Inr \<lparr>of_name = ''citation'', of_primitives = [''author_name''],
           of_compounds = [\<lparr>ce_name = ''author'', ce_childFields = [''name'']\<rparr>]\<rparr>,
      [''https://demo.dataverse.org/api/metadatablocks/citation''])"
  by (simp add: open_fields_defs schema_defs demo_block_def)

text \<open>
  C9. For a review identifier that no row of the store carries, the open-fields endpoint
  answers 404 with a message naming the identifier, whatever the remote would answer, and
  the log of requested URLs is empty: no remote fetch was attempted.
\<close>

theorem open_fields_unknown_review:
  "review_pk \<notin> set (map r_id (review_rows s)) \<Longrightarrow>
     fetch_open_metadatablock_fields_for_review lower get s review_pk =
       (Inr \<lparr>status = 404,
             data = MessageBody (''Review with ID '' @ [CHR 0x27] @ review_pk @ [CHR 0x27]
                                  @ '' does not exist.'')\<rparr>, [])"
proof -
  assume "review_pk \<notin> set (map r_id (review_rows s))"
  then have "find (\<lambda>r. r_id r = review_pk) (review_rows s) = None"
    by (auto simp: find_None_iff)
  then show ?thesis
    by (simp add: fetch_open_metadatablock_fields_for_review_def)
qed

theorem open_fields_unknown_review_witness:
  "''r9'' \<notin> set (map r_id (review_rows counted_store)) \<and>
   fetch_open_metadatablock_fields_for_review ascii_lower (\<lambda>url. Inl (Raised ''HTTPError''))
      counted_store ''r9'' =
     (Inr \<lparr>status = 404, data = MessageBody ''Review with ID 'r9' does not exist.''\<rparr>, [])"
proof -
  have h: "''r9'' \<notin> set (map r_id (review_rows counted_store))"
    by (simp add: counted_store_def demo_review_def)
  from open_fields_unknown_review [OF h, where lower = ascii_lower
      and get = "\<lambda>url. Inl (Raised ''HTTPError'')"] h
  show ?thesis
    by simp
qed

section \<open>The field count\<close>

text \<open>
  C4. For the review of the specification's example (three primitives directly under its
  block, two of them accepted; two primitives under a compound, one accepted) the endpoint
  reports 4 fields, one less than the 5 stored, and 3 accepted: the subtraction of one
  from the two query lengths is right only when exactly one of the joined rows is a NULL
  row.
\<close>

theorem get_field_count_example:
  "get_field_count counted_store ''r1'' = \<lparr>status = 200, data = FieldCount 4 3\<rparr>"
  by (simp add: get_field_count_def primitive_fields_def compound_fields_def blocks_of_review_def
      compounds_of_block_def primitives_of_compound_def primitives_of_block_def outer_def world_defs)

end
